theory Spec2Isabelle
  imports Main "HOL-Library.Code_Target_Nat"
begin

section \<open>Data model\<close>

text \<open>
  The representation domain of a polynomial (\<^verbatim>\<open>Format::EVALUATION\<close>, the transform
  domain, and \<^verbatim>\<open>Format::COEFFICIENT\<close>), and the configuration selectors read by
  \<^verbatim>\<open>bfvrns-pke.cpp\<close>. The selector of the secret-key distribution is a C++ enum whose
  \<^verbatim>\<open>switch\<close> has a \<^verbatim>\<open>default\<close> branch, so the model has a value for "none of the three".
\<close>

datatype Format = EVALUATION | COEFFICIENT

datatype SecretKeyDist = GAUSSIAN | UNIFORM_TERNARY | SPARSE_TERNARY | UNSUPPORTED_DIST

datatype EncryptionTechnique = STANDARD | EXTENDED

datatype MultiplicationTechnique = BEHZ | HPS | HPSPOVERQ | HPSPOVERQLEVELED

text \<open>
  Failures of the polynomial arithmetic: the spec's precondition violations (operands in
  different domains, operands with different tower counts) and reads past the end of a
  vector.
\<close>

datatype error = DomainMismatch | TowerMismatch | OutOfRange

definition bindE :: "error + 'a \<Rightarrow> ('a \<Rightarrow> error + 'b) \<Rightarrow> error + 'b" where
  "bindE m f = (case m of Inl e \<Rightarrow> Inl e | Inr x \<Rightarrow> f x)"

text \<open>
  One tower of a modulus chain (\<^verbatim>\<open>ILNativeParams\<close>): ring dimension, prime modulus and
  root of unity. A chain (\<^verbatim>\<open>ILDCRTParams\<close>, what \<^verbatim>\<open>GetParams()\<close> returns) is the ordered
  list of its towers.
\<close>

record ILNativeParams =
  ringDimension :: nat
  modulus :: nat
  rootOfUnity :: nat

type_synonym ILDCRTParams = "ILNativeParams list"

text \<open>
  A residue polynomial (\<^verbatim>\<open>NativePoly\<close>) and an RNS polynomial (\<^verbatim>\<open>DCRTPoly\<close>):
  one residue polynomial per tower and one domain for all of them (the
  all-towers-same-domain invariant of the data model is built in).
\<close>

record NativePoly =
  np_params :: ILNativeParams
  np_values :: "nat list"

record DCRTPoly =
  m_vectors :: "NativePoly list"
  m_format :: Format

definition GetParams :: "DCRTPoly \<Rightarrow> ILDCRTParams" where
  "GetParams p = map np_params (m_vectors p)"

definition GetNumOfElements :: "DCRTPoly \<Rightarrow> nat" where
  "GetNumOfElements p = length (m_vectors p)"

text \<open>
  The default-constructed \<^verbatim>\<open>DCRTPoly s;\<close> of \<^verbatim>\<open>KeyGenInternal\<close>: no towers.
\<close>

definition DCRTPoly_default :: DCRTPoly where
  "DCRTPoly_default = \<lparr>m_vectors = [], m_format = EVALUATION\<rparr>"

text \<open>
  The getters of \<^verbatim>\<open>CryptoParametersBFVRNS\<close> that the source calls. The class itself is
  not part of the sources, so each getter is a field: the three modulus chains (primary
  \<open>Q\<close>, extended \<open>Qr\<close>, public-key chain), the selectors, the plaintext modulus and the
  precomputed tables (level-indexed tables as functions of the level).
\<close>

record CryptoParameters =
  GetElementParams :: ILDCRTParams
  GetParamsQr :: ILDCRTParams
  GetParamsPK :: ILDCRTParams
  GetEncryptionTechnique :: EncryptionTechnique
  GetMultiplicationTechnique :: MultiplicationTechnique
  GetSecretKeyDist :: SecretKeyDist
  GetNoiseScale :: nat
  GetPlaintextModulus :: nat
  GettInvModq :: "nat list"
  GettInvModqr :: "nat list"
  GetNegQModt :: "nat \<Rightarrow> nat"
  GetNegQModtPrecon :: "nat \<Rightarrow> nat"
  GetNegQrModt :: nat
  GetNegQrModtPrecon :: nat
  GetrInvModq :: "nat list"
  GetQlQlInvModqlDivqlModq :: "nat \<Rightarrow> nat list"
  GetqlInvModq :: "nat \<Rightarrow> nat list"
  GetModuliQ :: "nat list"
  Gettgamma :: nat
  GettgammaQHatInvModq :: "nat list"
  GettgammaQHatInvModqPrecon :: "nat list"
  GetNegInvqModtgamma :: "nat list"
  GetNegInvqModtgammaPrecon :: "nat list"

record CryptoContext =
  GetCryptoParameters :: CryptoParameters

record PrivateKey =
  sk_CryptoParameters :: CryptoParameters
  sk_KeyTag :: string
  GetPrivateElement :: DCRTPoly

record PublicKey =
  pk_CryptoParameters :: CryptoParameters
  pk_KeyTag :: string
  GetPublicElements :: "DCRTPoly list"

record KeyPair =
  kp_publicKey :: PublicKey
  kp_secretKey :: PrivateKey

text \<open>
  A ciphertext: its components and its metadata (the key tag and parameters copied from
  the key it was made for, the level and the noise-scale degree).
\<close>

record Ciphertext =
  ct_CryptoParameters :: CryptoParameters
  ct_KeyTag :: string
  GetElements :: "DCRTPoly list"
  GetNoiseScaleDeg :: nat
  GetLevel :: nat

text \<open>
  The external collaborators of encryption and decryption (spec 1 and 6), taken as
  parameters: the number-theoretic transform of one residue polynomial to the given
  domain, the encryption of zero under a secret or a public key at a modulus chain, the
  decrypt core, the classical CRT-gamma scale-and-round routine (called with the moduli,
  \<open>t\<close>, \<open>t * gamma\<close> and its four tables) and the numeric part of level-drop-and-rescale
  (domain, the two tables, the index of the tower, the dropped tower, the tower).
\<close>

record Collaborators =
  SwitchFormat :: "ILNativeParams \<Rightarrow> Format \<Rightarrow> nat list \<Rightarrow> nat list"
  EncryptZeroCore_priv :: "PrivateKey \<Rightarrow> ILDCRTParams \<Rightarrow> error + DCRTPoly list"
  EncryptZeroCore_pub :: "PublicKey \<Rightarrow> ILDCRTParams \<Rightarrow> error + DCRTPoly list"
  DecryptCore :: "DCRTPoly list \<Rightarrow> PrivateKey \<Rightarrow> error + DCRTPoly"
  ScaleAndRound_gamma :: "nat list \<Rightarrow> nat \<Rightarrow> nat \<Rightarrow> nat list \<Rightarrow> nat list \<Rightarrow> nat list \<Rightarrow> nat list \<Rightarrow> DCRTPoly \<Rightarrow> NativePoly"
  RescaleTower :: "Format \<Rightarrow> nat list \<Rightarrow> nat list \<Rightarrow> nat \<Rightarrow> NativePoly \<Rightarrow> NativePoly \<Rightarrow> nat list"

text \<open>
  The random generators are external collaborators with hidden state; the model threads
  that state (\<open>'g\<close>) through every draw. \<^verbatim>\<open>GenerateVector(ringDim, modulus)\<close> is the call
  the example program makes; the ternary generator also takes the Hamming weight
  (\<open>0\<close> when the constructor is called without one).
\<close>

record 'g Generators =
  dgg_GenerateVector :: "'g \<Rightarrow> nat \<Rightarrow> nat \<Rightarrow> nat list \<times> 'g"
  dug_GenerateVector :: "'g \<Rightarrow> nat \<Rightarrow> nat \<Rightarrow> nat list \<times> 'g"
  tug_GenerateVector :: "'g \<Rightarrow> nat \<Rightarrow> nat \<Rightarrow> nat \<Rightarrow> nat list \<times> 'g"
  GenerateUniqueKeyID :: "'g \<Rightarrow> string \<times> 'g"

section \<open>RNS polynomial operations\<close>

text \<open>
  Modelled from the spec: the arithmetic operators of \<^verbatim>\<open>DCRTPoly\<close> are not part of the
  sources. Spec 4.1 and 7: elementwise add, subtract and multiply, modular per tower;
  operands in different domains or with different tower counts fail fast.
\<close>

definition ModAdd :: "nat \<Rightarrow> nat \<Rightarrow> nat \<Rightarrow> nat" where
  "ModAdd q x y = (x + y) mod q"

definition ModSub :: "nat \<Rightarrow> nat \<Rightarrow> nat \<Rightarrow> nat" where
  "ModSub q x y = (x + (q - y mod q)) mod q"

definition ModMul :: "nat \<Rightarrow> nat \<Rightarrow> nat \<Rightarrow> nat" where
  "ModMul q x y = (x * y) mod q"

definition NativeOp :: "(nat \<Rightarrow> nat \<Rightarrow> nat \<Rightarrow> nat) \<Rightarrow> NativePoly \<Rightarrow> NativePoly \<Rightarrow> NativePoly" where
  "NativeOp f x y =
     x\<lparr>np_values := map2 (f (modulus (np_params x))) (np_values x) (np_values y)\<rparr>"

definition DCRTOp :: "(nat \<Rightarrow> nat \<Rightarrow> nat \<Rightarrow> nat) \<Rightarrow> DCRTPoly \<Rightarrow> DCRTPoly \<Rightarrow> error + DCRTPoly" where
  "DCRTOp f a b =
     (if m_format a \<noteq> m_format b then Inl DomainMismatch
      else if length (m_vectors a) \<noteq> length (m_vectors b) then Inl TowerMismatch
      else Inr (a\<lparr>m_vectors := map2 (NativeOp f) (m_vectors a) (m_vectors b)\<rparr>))"

definition Plus :: "DCRTPoly \<Rightarrow> DCRTPoly \<Rightarrow> error + DCRTPoly" where
  "Plus = DCRTOp ModAdd"

definition Minus :: "DCRTPoly \<Rightarrow> DCRTPoly \<Rightarrow> error + DCRTPoly" where
  "Minus = DCRTOp ModSub"

definition Times :: "DCRTPoly \<Rightarrow> DCRTPoly \<Rightarrow> error + DCRTPoly" where
  "Times = DCRTOp ModMul"

text \<open>The product of a scalar and a polynomial (\<^verbatim>\<open>ns * e\<close>), modular per tower.\<close>

definition TimesScalar :: "nat \<Rightarrow> DCRTPoly \<Rightarrow> DCRTPoly" where
  "TimesScalar c a =
     a\<lparr>m_vectors :=
         map (\<lambda>x. x\<lparr>np_values := map (ModMul (modulus (np_params x)) c) (np_values x)\<rparr>)
           (m_vectors a)\<rparr>"

text \<open>
  Modelled from the spec: \<^verbatim>\<open>DropLastElements(k)\<close> is not part of the sources. Spec 3:
  level reduction drops the last \<open>k\<close> primes.
\<close>

definition DropLastElements :: "nat \<Rightarrow> DCRTPoly \<Rightarrow> DCRTPoly" where
  "DropLastElements k a = a\<lparr>m_vectors := take (length (m_vectors a) - k) (m_vectors a)\<rparr>"

text \<open>
  Modelled from the spec: the sampling constructors \<^verbatim>\<open>DCRTPoly(generator, params, format)\<close>
  are not part of the sources. Spec 4.1 (b) and 4.2: construct from a random-distribution
  sampler at a given domain, directly in that domain, at the given modulus chain: one
  draw per tower of the chain, at that tower's ring dimension and modulus.
\<close>

fun SampleTowers :: "('g \<Rightarrow> nat \<Rightarrow> nat \<Rightarrow> nat list \<times> 'g) \<Rightarrow> ILDCRTParams \<Rightarrow> 'g \<Rightarrow> NativePoly list \<times> 'g" where
  "SampleTowers draw [] g = ([], g)"
| "SampleTowers draw (p # ps) g =
     (let (v, g1) = draw g (ringDimension p) (modulus p);
          (rest, g2) = SampleTowers draw ps g1
      in (\<lparr>np_params = p, np_values = v\<rparr> # rest, g2))"

definition DCRTPoly_sampled :: "('g \<Rightarrow> nat \<Rightarrow> nat \<Rightarrow> nat list \<times> 'g) \<Rightarrow> ILDCRTParams \<Rightarrow> Format \<Rightarrow> 'g \<Rightarrow> DCRTPoly \<times> 'g" where
  "DCRTPoly_sampled draw params fmt g =
     (let (ts, g1) = SampleTowers draw params g in (\<lparr>m_vectors = ts, m_format = fmt\<rparr>, g1))"

definition DCRTPoly_dgg :: "'g Generators \<Rightarrow> ILDCRTParams \<Rightarrow> Format \<Rightarrow> 'g \<Rightarrow> DCRTPoly \<times> 'g" where
  "DCRTPoly_dgg gen = DCRTPoly_sampled (dgg_GenerateVector gen)"

definition DCRTPoly_dug :: "'g Generators \<Rightarrow> ILDCRTParams \<Rightarrow> Format \<Rightarrow> 'g \<Rightarrow> DCRTPoly \<times> 'g" where
  "DCRTPoly_dug gen = DCRTPoly_sampled (dug_GenerateVector gen)"

definition DCRTPoly_tug :: "'g Generators \<Rightarrow> ILDCRTParams \<Rightarrow> Format \<Rightarrow> nat \<Rightarrow> 'g \<Rightarrow> DCRTPoly \<times> 'g" where
  "DCRTPoly_tug gen params fmt h = DCRTPoly_sampled (\<lambda>g n q. tug_GenerateVector gen g n q h) params fmt"

section \<open>Key generation\<close>

text \<open>
  \<^verbatim>\<open>PKEBFVRNS::KeyGenInternal\<close>, lines 46 to 97. The secret key is drawn by the
  \<^verbatim>\<open>switch\<close> on the distribution selector (the \<^verbatim>\<open>default\<close> branch leaves the
  default-constructed \<open>s\<close>), then \<open>a\<close> and \<open>e\<close> are drawn and \<open>b = ns * e - a * s\<close> is
  computed; \<open>s\<close> loses its last \<open>sizePK - sizeQ\<close> towers when \<open>sizePK > sizeQ\<close>, where
  \<open>sizeQ\<close> is the size of \<^verbatim>\<open>elementParams\<close> (lines 52 to 55: the chain \<open>Qr\<close> when the
  encryption technique is \<^verbatim>\<open>EXTENDED\<close>, the primary chain otherwise). The flag
  \<^verbatim>\<open>makeSparse\<close> is not read by the source.
\<close>

definition KeyGenElementParams :: "CryptoParameters \<Rightarrow> ILDCRTParams" where
  "KeyGenElementParams cryptoParams =
     (if GetEncryptionTechnique cryptoParams = EXTENDED then GetParamsQr cryptoParams
      else GetElementParams cryptoParams)"

definition SampleSecret :: "'g Generators \<Rightarrow> CryptoParameters \<Rightarrow> 'g \<Rightarrow> DCRTPoly \<times> 'g" where
  "SampleSecret gen cryptoParams g =
     (case GetSecretKeyDist cryptoParams of
        GAUSSIAN \<Rightarrow> DCRTPoly_dgg gen (GetParamsPK cryptoParams) EVALUATION g
      | UNIFORM_TERNARY \<Rightarrow> DCRTPoly_tug gen (GetParamsPK cryptoParams) EVALUATION 0 g
      | SPARSE_TERNARY \<Rightarrow> DCRTPoly_tug gen (GetParamsPK cryptoParams) EVALUATION 192 g
      | UNSUPPORTED_DIST \<Rightarrow> (DCRTPoly_default, g))"

definition KeyGenInternal :: "'g Generators \<Rightarrow> CryptoContext \<Rightarrow> bool \<Rightarrow> 'g \<Rightarrow> error + (KeyPair \<times> 'g)" where
  "KeyGenInternal gen cc makeSparse g0 =
     (let cryptoParams = GetCryptoParameters cc;
          (tag, g1) = GenerateUniqueKeyID gen g0;
          elementParams = KeyGenElementParams cryptoParams;
          paramsPK = GetParamsPK cryptoParams;
          ns = GetNoiseScale cryptoParams;
          (s, g2) = SampleSecret gen cryptoParams g1;
          (a, g3) = DCRTPoly_dug gen paramsPK EVALUATION g2;
          (e, g4) = DCRTPoly_dgg gen paramsPK EVALUATION g3
      in bindE (Times a s) (\<lambda>as.
         bindE (Minus (TimesScalar ns e) as) (\<lambda>b.
           let sizeQ = length elementParams;
               sizePK = length paramsPK;
               s' = (if sizePK > sizeQ then DropLastElements (sizePK - sizeQ) s else s)
           in Inr (\<lparr>kp_publicKey = \<lparr>pk_CryptoParameters = cryptoParams, pk_KeyTag = tag,
                                  GetPublicElements = [b, a]\<rparr>,
                     kp_secretKey = \<lparr>sk_CryptoParameters = cryptoParams, sk_KeyTag = tag,
                                  GetPrivateElement = s'\<rparr>\<rparr>, g4))))"

section \<open>Encryption\<close>

text \<open>
  \<^verbatim>\<open>size_t\<close> subtraction (64 bits) wraps around; \<^verbatim>\<open>v[i]\<close> past the end of a vector is
  an error.
\<close>

definition size_t_sub :: "nat \<Rightarrow> nat \<Rightarrow> nat" where
  "size_t_sub x y = (x + 2 ^ 64 - y mod 2 ^ 64) mod 2 ^ 64"

definition ElementAt :: "'a list \<Rightarrow> nat \<Rightarrow> error + 'a" where
  "ElementAt xs i = (if i < length xs then Inr (xs ! i) else Inl OutOfRange)"

text \<open>
  Modelled from the spec: \<^verbatim>\<open>SetFormat\<close> is not part of the sources. Spec 4.1: domain
  conversion per tower, by the external transform; a polynomial already in the requested
  domain is left as it is.
\<close>

definition SetFormat :: "Collaborators \<Rightarrow> Format \<Rightarrow> DCRTPoly \<Rightarrow> DCRTPoly" where
  "SetFormat ext fmt a =
     (if m_format a = fmt then a
      else \<lparr>m_vectors =
              map (\<lambda>x. x\<lparr>np_values := SwitchFormat ext (np_params x) fmt (np_values x)\<rparr>)
                (m_vectors a),
            m_format = fmt\<rparr>)"

text \<open>
  The ring degree of an RNS polynomial, the residues of its \<open>k\<close>-th coefficient (one per
  tower), its moduli and their product \<open>Q\<close>.
\<close>

definition RingDim :: "DCRTPoly \<Rightarrow> nat" where
  "RingDim a = (case m_vectors a of [] \<Rightarrow> 0 | x # _ \<Rightarrow> length (np_values x))"

definition Column :: "DCRTPoly \<Rightarrow> nat \<Rightarrow> nat list" where
  "Column a k = map (\<lambda>x. np_values x ! k) (m_vectors a)"

definition Moduli :: "ILDCRTParams \<Rightarrow> nat list" where
  "Moduli params = map modulus params"

definition ChainModulus :: "ILDCRTParams \<Rightarrow> nat" where
  "ChainModulus params = prod_list (Moduli params)"

text \<open>
  Modelled from the spec: \<^verbatim>\<open>CRTInterpolate\<close> and the constructor of a \<^verbatim>\<open>DCRTPoly\<close> from a
  big-integer polynomial are not part of the sources. Spec 4.3 step 2: the plaintext is
  reinterpreted at the extended basis via explicit CRT interpolation. The interpolated
  coefficient is the value below \<open>Q\<close> with the given residues.
\<close>

definition CRTValue :: "nat list \<Rightarrow> nat list \<Rightarrow> nat" where
  "CRTValue qs rs =
     (case find (\<lambda>x. list_all2 (\<lambda>q r. x mod q = r mod q) qs rs) [0..<prod_list qs] of
        Some x \<Rightarrow> x | None \<Rightarrow> 0)"

definition CRTInterpolate :: "DCRTPoly \<Rightarrow> nat list" where
  "CRTInterpolate a = map (\<lambda>k. CRTValue (Moduli (GetParams a)) (Column a k)) [0..<RingDim a]"

definition DCRTPoly_of_Poly :: "nat list \<Rightarrow> ILDCRTParams \<Rightarrow> DCRTPoly" where
  "DCRTPoly_of_Poly big params =
     \<lparr>m_vectors = map (\<lambda>p. \<lparr>np_params = p, np_values = map (\<lambda>v. v mod modulus p) big\<rparr>) params,
      m_format = COEFFICIENT\<rparr>"

text \<open>
  Modelled from the spec: \<^verbatim>\<open>TimesQovert\<close> is not part of the sources. Spec 4.3 step 3:
  every coefficient is multiplied by the per-tower constant \<open>\<lfloor>Q/t\<rfloor> mod q\<^sub>i\<close>, which turns a
  plaintext mod \<open>t\<close> into a polynomial mod \<open>Q\<close> representing \<open>\<lfloor>Q/t\<rfloor> * m\<close>. The tables the
  source passes are functions of \<open>t\<close> and the chain (spec 3); the model computes the
  constant from \<open>t\<close> and the chain.
\<close>

definition TimesQovert :: "ILDCRTParams \<Rightarrow> nat list \<Rightarrow> nat \<Rightarrow> nat \<Rightarrow> nat \<Rightarrow> DCRTPoly \<Rightarrow> DCRTPoly" where
  "TimesQovert paramsQ tInvModq t NegQModt NegQModtPrecon a =
     a\<lparr>m_vectors :=
         map (\<lambda>x. x\<lparr>np_values :=
                  map (ModMul (modulus (np_params x)) (ChainModulus paramsQ div t)) (np_values x)\<rparr>)
           (m_vectors a)\<rparr>"

text \<open>Division rounded to nearest (halves up).\<close>

definition RoundDiv :: "nat \<Rightarrow> nat \<Rightarrow> nat" where
  "RoundDiv x q = (2 * x + q) div (2 * q)"

text \<open>
  Modelled from the spec: \<^verbatim>\<open>ScaleAndRoundPOverQ\<close> is not part of the sources. Spec 4.3
  step 5: a component is scaled back down from the extended basis to the primary basis
  via a rounded division.
\<close>

definition ScaleAndRoundPOverQ :: "ILDCRTParams \<Rightarrow> nat list \<Rightarrow> DCRTPoly \<Rightarrow> DCRTPoly" where
  "ScaleAndRoundPOverQ paramsQ rInvModq a =
     (let big = map (\<lambda>x. RoundDiv (x * ChainModulus paramsQ) (ChainModulus (GetParams a)))
                  (CRTInterpolate a)
      in \<lparr>m_vectors = map (\<lambda>p. \<lparr>np_params = p, np_values = map (\<lambda>v. v mod modulus p) big\<rparr>) paramsQ,
          m_format = m_format a\<rparr>)"

text \<open>
  The constructor \<^verbatim>\<open>CiphertextImpl(key)\<close>: an empty ciphertext with the key's parameters
  and tag.
\<close>

definition CiphertextImpl :: "CryptoParameters \<Rightarrow> string \<Rightarrow> Ciphertext" where
  "CiphertextImpl cryptoParams tag =
     \<lparr>ct_CryptoParameters = cryptoParams, ct_KeyTag = tag, GetElements = [],
      GetNoiseScaleDeg = 1, GetLevel = 0\<rparr>"

text \<open>
  \<^verbatim>\<open>PKEBFVRNS::Encrypt(DCRTPoly ptxt, const PrivateKey<DCRTPoly> privateKey)\<close>,
  lines 99 to 155.
\<close>

definition Encrypt_priv :: "Collaborators \<Rightarrow> DCRTPoly \<Rightarrow> PrivateKey \<Rightarrow> error + Ciphertext" where
  "Encrypt_priv ext ptxt privateKey =
     (let ciphertext = CiphertextImpl (sk_CryptoParameters privateKey) (sk_KeyTag privateKey);
          cryptoParams = sk_CryptoParameters privateKey;
          elementParams = GetElementParams cryptoParams;
          sizeQ = length elementParams;
          sizeP = length (GetParams ptxt);
          level = size_t_sub sizeQ sizeP;
          extended = (GetEncryptionTechnique cryptoParams = EXTENDED);
          encParams = (if extended then GetParamsQr cryptoParams else GetParams ptxt);
          ptxt1 = (if extended
                   then DCRTPoly_of_Poly (CRTInterpolate (SetFormat ext COEFFICIENT ptxt)) encParams
                   else ptxt);
          tInvModq = (if extended then GettInvModqr cryptoParams else GettInvModq cryptoParams);
          ptxt2 = SetFormat ext COEFFICIENT ptxt1
      in bindE (EncryptZeroCore_priv ext privateKey encParams) (\<lambda>ba.
         let NegQModt = (if extended then GetNegQrModt cryptoParams
                         else GetNegQModt cryptoParams level);
             NegQModtPrecon = (if extended then GetNegQrModtPrecon cryptoParams
                               else GetNegQModtPrecon cryptoParams level);
             t = GetPlaintextModulus cryptoParams;
             ptxt3 = TimesQovert encParams tInvModq t NegQModt NegQModtPrecon ptxt2;
             ptxt4 = SetFormat ext EVALUATION ptxt3
         in bindE (ElementAt ba 0) (\<lambda>ba0.
            bindE (Plus ba0 ptxt4) (\<lambda>c0.
            bindE (ElementAt ba 1) (\<lambda>c1.
              let c0c = SetFormat ext COEFFICIENT c0;
                  c1c = SetFormat ext COEFFICIENT c1;
                  c0s = (if extended
                         then ScaleAndRoundPOverQ elementParams (GetrInvModq cryptoParams) c0c
                         else c0c);
                  c1s = (if extended
                         then ScaleAndRoundPOverQ elementParams (GetrInvModq cryptoParams) c1c
                         else c1c);
                  c0e = SetFormat ext EVALUATION c0s;
                  c1e = SetFormat ext EVALUATION c1s
              in Inr (ciphertext\<lparr>GetElements := [c0e, c1e], GetNoiseScaleDeg := 1\<rparr>))))))"

text \<open>
  \<^verbatim>\<open>PKEBFVRNS::Encrypt(DCRTPoly ptxt, const PublicKey<DCRTPoly> publicKey)\<close>,
  lines 157 to 215.
\<close>

definition Encrypt_pub :: "Collaborators \<Rightarrow> DCRTPoly \<Rightarrow> PublicKey \<Rightarrow> error + Ciphertext" where
  "Encrypt_pub ext ptxt publicKey =
     (let ciphertext = CiphertextImpl (pk_CryptoParameters publicKey) (pk_KeyTag publicKey);
          cryptoParams = pk_CryptoParameters publicKey;
          elementParams = GetElementParams cryptoParams;
          sizeQ = length elementParams;
          sizeP = length (GetParams ptxt);
          level = size_t_sub sizeQ sizeP;
          extended = (GetEncryptionTechnique cryptoParams = EXTENDED);
          encParams = (if extended then GetParamsQr cryptoParams else GetParams ptxt);
          ptxt1 = (if extended
                   then DCRTPoly_of_Poly (CRTInterpolate (SetFormat ext COEFFICIENT ptxt)) encParams
                   else ptxt);
          tInvModq = (if extended then GettInvModqr cryptoParams else GettInvModq cryptoParams);
          ptxt2 = SetFormat ext COEFFICIENT ptxt1
      in bindE (EncryptZeroCore_pub ext publicKey encParams) (\<lambda>ba.
         let NegQModt = (if extended then GetNegQrModt cryptoParams
                         else GetNegQModt cryptoParams level);
             NegQModtPrecon = (if extended then GetNegQrModtPrecon cryptoParams
                               else GetNegQModtPrecon cryptoParams level);
             t = GetPlaintextModulus cryptoParams;
             ptxt3 = TimesQovert encParams tInvModq t NegQModt NegQModtPrecon ptxt2;
             ptxt4 = SetFormat ext EVALUATION ptxt3
         in bindE (ElementAt ba 0) (\<lambda>ba0.
            bindE (Plus ba0 ptxt4) (\<lambda>c0.
            bindE (ElementAt ba 1) (\<lambda>c1.
              let c0c = SetFormat ext COEFFICIENT c0;
                  c1c = SetFormat ext COEFFICIENT c1;
                  c0s = (if extended
                         then ScaleAndRoundPOverQ elementParams (GetrInvModq cryptoParams) c0c
                         else c0c);
                  c1s = (if extended
                         then ScaleAndRoundPOverQ elementParams (GetrInvModq cryptoParams) c1c
                         else c1c);
                  c0e = SetFormat ext EVALUATION c0s;
                  c1e = SetFormat ext EVALUATION c1s
              in Inr (ciphertext\<lparr>GetElements := [c0e, c1e], GetNoiseScaleDeg := 1\<rparr>))))))"

section \<open>Decryption\<close>

text \<open>
  Modelled from the spec: \<^verbatim>\<open>ScaleAndRound\<close> (the overload of the direct technique) is not
  part of the sources. Spec 4.4 step 2: \<open>b\<close> is scaled by \<open>t/Q\<close> with one rounding per
  coefficient, which gives the plaintext polynomial mod \<open>t\<close>. The tables the source passes
  are functions of \<open>t\<close> and the chain; the model computes on the interpolated coefficient.
\<close>

definition ScaleAndRound :: "nat \<Rightarrow> DCRTPoly \<Rightarrow> NativePoly" where
  "ScaleAndRound t b =
     \<lparr>np_params = \<lparr>ringDimension = RingDim b, modulus = t, rootOfUnity = 1\<rparr>,
      np_values = map (\<lambda>x. RoundDiv (t * x) (ChainModulus (GetParams b)) mod t) (CRTInterpolate b)\<rparr>"

text \<open>
  Modelled from the spec: \<^verbatim>\<open>DropLastElementAndScale\<close> is not part of the sources.
  Spec 4.1: the last tower is removed and its contribution is redistributed into the
  remaining towers via the precomputed rescale constants (the numeric part is the
  external \<open>RescaleTower\<close>). A polynomial without towers has no last tower.
\<close>

definition DropLastElementAndScale :: "Collaborators \<Rightarrow> nat list \<Rightarrow> nat list \<Rightarrow> DCRTPoly \<Rightarrow> error + DCRTPoly" where
  "DropLastElementAndScale ext QlQlInvModqlDivqlModq qlInvModq a =
     (if m_vectors a = [] then Inl OutOfRange
      else let lastPoly = last (m_vectors a);
               rest = butlast (m_vectors a)
           in Inr (a\<lparr>m_vectors :=
                      map (\<lambda>i. (rest ! i)\<lparr>np_values :=
                              RescaleTower ext (m_format a) QlQlInvModqlDivqlModq qlInvModq i
                                lastPoly (rest ! i)\<rparr>)
                        [0..<length rest]\<rparr>))"

text \<open>
  Modelled from the spec: \<^verbatim>\<open>MultiplyAndRound\<close> and \<^verbatim>\<open>SwitchModulus\<close> of a residue
  polynomial are not part of the sources. Spec 4.4 step 3: multiply by \<open>t\<close> and
  round-divide by the remaining modulus; reinterpret the result modulo \<open>t\<close>, with the
  root of unity the caller gives.
\<close>

definition MultiplyAndRound :: "nat \<Rightarrow> nat \<Rightarrow> NativePoly \<Rightarrow> NativePoly" where
  "MultiplyAndRound p q x = x\<lparr>np_values := map (\<lambda>v. RoundDiv (v * p) q) (np_values x)\<rparr>"

definition SwitchModulus :: "nat \<Rightarrow> nat \<Rightarrow> NativePoly \<Rightarrow> NativePoly" where
  "SwitchModulus newModulus root x =
     \<lparr>np_params = (np_params x)\<lparr>modulus := newModulus, rootOfUnity := root\<rparr>,
      np_values = map (\<lambda>v. v mod newModulus) (np_values x)\<rparr>"

text \<open>The loop of lines 252 to 255: \<open>levels\<close> calls of \<^verbatim>\<open>DropLastElementAndScale\<close>.\<close>

function DropLoop :: "Collaborators \<Rightarrow> CryptoParameters \<Rightarrow> nat \<Rightarrow> nat \<Rightarrow> nat \<Rightarrow> DCRTPoly \<Rightarrow> error + DCRTPoly" where
  "DropLoop ext cryptoParams diffQl levels l b =
     (if l < levels
      then (case DropLastElementAndScale ext
                   (GetQlQlInvModqlDivqlModq cryptoParams (diffQl + l))
                   (GetqlInvModq cryptoParams (diffQl + l)) b of
              Inl err \<Rightarrow> Inl err
            | Inr b' \<Rightarrow> DropLoop ext cryptoParams diffQl levels (l + 1) b')
      else Inr b)"
  by pat_completeness auto
termination
  by (relation "measure (\<lambda>(ext, cryptoParams, diffQl, levels, l, b). levels - l)") auto

text \<open>
  \<^verbatim>\<open>PKEBFVRNS::Decrypt\<close>, lines 217 to 273. The result is the plaintext polynomial and the
  length carried by the \<^verbatim>\<open>DecryptResult\<close>.
\<close>

definition Decrypt :: "Collaborators \<Rightarrow> Ciphertext \<Rightarrow> PrivateKey \<Rightarrow> error + (NativePoly \<times> nat)" where
  "Decrypt ext ciphertext privateKey =
     (let cryptoParams = sk_CryptoParameters privateKey;
          cv = GetElements ciphertext
      in bindE (DecryptCore ext cv privateKey) (\<lambda>b.
         let sizeQl = GetNumOfElements b;
             elementParams = GetElementParams cryptoParams;
             sizeQ = length elementParams
         in if sizeQl = sizeQ
            then
              let b1 = SetFormat ext COEFFICIENT b;
                  plaintext =
                    (if GetMultiplicationTechnique cryptoParams = HPS \<or>
                        GetMultiplicationTechnique cryptoParams = HPSPOVERQ \<or>
                        GetMultiplicationTechnique cryptoParams = HPSPOVERQLEVELED
                     then ScaleAndRound (GetPlaintextModulus cryptoParams) b1
                     else ScaleAndRound_gamma ext (GetModuliQ cryptoParams)
                            (GetPlaintextModulus cryptoParams) (Gettgamma cryptoParams)
                            (GettgammaQHatInvModq cryptoParams)
                            (GettgammaQHatInvModqPrecon cryptoParams)
                            (GetNegInvqModtgamma cryptoParams)
                            (GetNegInvqModtgammaPrecon cryptoParams) b1)
              in Inr (plaintext, length (np_values plaintext))
            else
              let diffQl = size_t_sub sizeQ sizeQl;
                  levels = size_t_sub sizeQl 1
              in bindE (DropLoop ext cryptoParams diffQl levels 0 b) (\<lambda>b1.
                 let b2 = SetFormat ext COEFFICIENT b1;
                     t = GetPlaintextModulus cryptoParams
                 in bindE (ElementAt (m_vectors b2) 0) (\<lambda>element.
                    let q = modulus (np_params element);
                        element1 = MultiplyAndRound t q element;
                        plaintext = SwitchModulus t 1 element1
                    in Inr (plaintext, length (np_values plaintext))))))"

section \<open>Rerandomization\<close>

text \<open>
  Modelled from the spec: the constructor \<^verbatim>\<open>DCRTPoly(params, format)\<close> and
  \<^verbatim>\<open>SetElementAtIndex\<close> are not part of the sources. Spec 4.1: construction of a
  deterministic zero value, and replacement of a single tower's residue polynomial.
\<close>

definition DCRTPoly_zero :: "ILDCRTParams \<Rightarrow> Format \<Rightarrow> DCRTPoly" where
  "DCRTPoly_zero params fmt =
     \<lparr>m_vectors = map (\<lambda>p. \<lparr>np_params = p, np_values = replicate (ringDimension p) 0\<rparr>) params,
      m_format = fmt\<rparr>"

definition SetElementAtIndex :: "nat \<Rightarrow> NativePoly \<Rightarrow> DCRTPoly \<Rightarrow> DCRTPoly" where
  "SetElementAtIndex i x a = a\<lparr>m_vectors := (m_vectors a)[i := x]\<rparr>"

text \<open>
  The loop of \<^verbatim>\<open>hpdic_nemesis_ckks.cpp\<close>, lines 179 to 192: one draw of the Gaussian
  generator per tower, stored as that tower of the noise polynomial.
\<close>

function NoiseLoop :: "'g Generators \<Rightarrow> ILDCRTParams \<Rightarrow> nat \<Rightarrow> nat \<Rightarrow> DCRTPoly \<Rightarrow> 'g \<Rightarrow> DCRTPoly \<times> 'g" where
  "NoiseLoop dgg elementParams numTowers i randomNoise g =
     (if i < numTowers
      then
        let ringDim = ringDimension (elementParams ! i);
            q = modulus (elementParams ! i);
            drawn = dgg_GenerateVector dgg g ringDim q;
            noisePoly = \<lparr>np_params = elementParams ! i, np_values = fst drawn\<rparr>
        in NoiseLoop dgg elementParams numTowers (i + 1)
             (SetElementAtIndex i noisePoly randomNoise) (snd drawn)
      else (randomNoise, g))"
  by pat_completeness auto
termination
  by (relation "measure (\<lambda>(dgg, elementParams, numTowers, i, randomNoise, g). numTowers - i)") auto

text \<open>
  The randomization block of \<^verbatim>\<open>main\<close>, lines 164 to 207, on the ciphertext
  \<^verbatim>\<open>ct_product\<close>: the first two components are read, the noise polynomial is drawn at
  the modulus chain of \<open>c0\<close> and brought to the transform domain, and the components are
  replaced by \<open>c0 + randomNoise\<close> and \<open>c1 - randomNoise\<close>.
\<close>

definition Randomization :: "Collaborators \<Rightarrow> 'g Generators \<Rightarrow> Ciphertext \<Rightarrow> 'g \<Rightarrow> error + (Ciphertext \<times> 'g)" where
  "Randomization ext dgg ct_product g =
     (let elements = GetElements ct_product
      in bindE (ElementAt elements 0) (\<lambda>c0.
         bindE (ElementAt elements 1) (\<lambda>c1.
           let elementParams = GetParams c0;
               numTowers = length elementParams;
               drawn = NoiseLoop dgg elementParams numTowers 0
                         (DCRTPoly_zero elementParams COEFFICIENT) g;
               randomNoise = SetFormat ext EVALUATION (fst drawn)
           in bindE (Plus c0 randomNoise) (\<lambda>newC0.
              bindE (Minus c1 randomNoise) (\<lambda>newC1.
                let newC0e = SetFormat ext EVALUATION newC0;
                    newC1e = SetFormat ext EVALUATION newC1
                in Inr (ct_product\<lparr>GetElements := elements[0 := newC0e, 1 := newC1e]\<rparr>,
                        snd drawn))))))"

section \<open>Noise of a ciphertext\<close>







section \<open>Shapes and constants of the transform domain\<close>

text \<open>
  Two RNS polynomials have the same shape when they are in the same domain and have,
  tower by tower, the same modulus and the same number of values. \<open>OnePoly a\<close> is the
  constant polynomial one with the shape of \<open>a\<close> (in the transform domain every value of
  a constant polynomial is that constant), \<open>ZeroPoly a\<close> the zero polynomial.
\<close>

definition SameShape :: "DCRTPoly \<Rightarrow> DCRTPoly \<Rightarrow> bool" where
  "SameShape a b =
     (m_format a = m_format b \<and>
      list_all2 (\<lambda>x y. modulus (np_params x) = modulus (np_params y) \<and>
                        length (np_values x) = length (np_values y))
        (m_vectors a) (m_vectors b))"

definition PositiveModuli :: "DCRTPoly \<Rightarrow> bool" where
  "PositiveModuli a = list_all (\<lambda>x. 0 < modulus (np_params x)) (m_vectors a)"

definition Reduced :: "DCRTPoly \<Rightarrow> bool" where
  "Reduced a = list_all (\<lambda>x. list_all (\<lambda>v. v < modulus (np_params x)) (np_values x)) (m_vectors a)"

definition ConstPoly :: "nat \<Rightarrow> DCRTPoly \<Rightarrow> DCRTPoly" where
  "ConstPoly c a =
     a\<lparr>m_vectors :=
         map (\<lambda>x. x\<lparr>np_values := map (\<lambda>v. c mod modulus (np_params x)) (np_values x)\<rparr>)
           (m_vectors a)\<rparr>"

definition OnePoly :: "DCRTPoly \<Rightarrow> DCRTPoly" where
  "OnePoly = ConstPoly 1"

definition ZeroPoly :: "DCRTPoly \<Rightarrow> DCRTPoly" where
  "ZeroPoly = ConstPoly 0"

section \<open>A concrete instance\<close>

text \<open>
  Small parameters on which the operations can be run: ring dimension 2, the primes 17,
  13 and 5 with roots of unity 4, 5 and 2 of order 4, the negacyclic transform written
  out as sums, generators that return constant polynomials, an encryption of zero with
  a given noise polynomial \<open>e\<close>, the decrypt core \<open>c0 + c1 * s\<close> and rounded division by the
  dropped modulus.
\<close>

definition ex_ModInverse :: "nat \<Rightarrow> nat \<Rightarrow> nat" where
  "ex_ModInverse x q = (case find (\<lambda>y. (y * x) mod q = 1) [0..<q] of Some y \<Rightarrow> y | None \<Rightarrow> 0)"

definition ex_SwitchFormat :: "ILNativeParams \<Rightarrow> Format \<Rightarrow> nat list \<Rightarrow> nat list" where
  "ex_SwitchFormat p fmt xs =
     (let n = length xs; q = modulus p; psi = rootOfUnity p
      in case fmt of
           EVALUATION \<Rightarrow>
             map (\<lambda>k. sum_list (map (\<lambda>j. xs ! j * psi ^ ((2 * k + 1) * j)) [0..<n]) mod q) [0..<n]
         | COEFFICIENT \<Rightarrow>
             map (\<lambda>j. (ex_ModInverse n q *
                        sum_list (map (\<lambda>k. xs ! k * (psi ^ (2 * n - 1)) ^ ((2 * k + 1) * j)) [0..<n])) mod q)
               [0..<n])"

definition ex_t17 :: ILNativeParams where
  "ex_t17 = \<lparr>ringDimension = 2, modulus = 17, rootOfUnity = 4\<rparr>"
definition ex_t13 :: ILNativeParams where
  "ex_t13 = \<lparr>ringDimension = 2, modulus = 13, rootOfUnity = 5\<rparr>"
definition ex_t5 :: ILNativeParams where
  "ex_t5 = \<lparr>ringDimension = 2, modulus = 5, rootOfUnity = 2\<rparr>"

definition ex_gen :: "nat Generators" where
  "ex_gen =
     \<lparr>dgg_GenerateVector = (\<lambda>g n q. (replicate n (1 mod q), g + 1)),
      dug_GenerateVector = (\<lambda>g n q. (map (\<lambda>i. (5 * g + 3 * i + 2) mod q) [0..<n], g + 1)),
      tug_GenerateVector =
        (\<lambda>g n q h. (replicate n (if h = 0 then q - 1 else 1 mod q), g + 1)),
      GenerateUniqueKeyID = (\<lambda>g. (''key'', g + 1))\<rparr>"

definition ex_CryptoParameters ::
  "ILDCRTParams \<Rightarrow> ILDCRTParams \<Rightarrow> ILDCRTParams \<Rightarrow> EncryptionTechnique \<Rightarrow>
   MultiplicationTechnique \<Rightarrow> SecretKeyDist \<Rightarrow> nat \<Rightarrow> CryptoParameters" where
  "ex_CryptoParameters Q Qr PK enc mul dist t =
     \<lparr>GetElementParams = Q, GetParamsQr = Qr, GetParamsPK = PK,
      GetEncryptionTechnique = enc, GetMultiplicationTechnique = mul, GetSecretKeyDist = dist,
      GetNoiseScale = 1, GetPlaintextModulus = t,
      GettInvModq = map (\<lambda>p. ex_ModInverse t (modulus p)) Q,
      GettInvModqr = map (\<lambda>p. ex_ModInverse t (modulus p)) Qr,
      GetNegQModt = (\<lambda>l. (t - ChainModulus (take (length Q - l) Q) mod t) mod t),
      GetNegQModtPrecon = (\<lambda>l. 0),
      GetNegQrModt = (t - ChainModulus Qr mod t) mod t,
      GetNegQrModtPrecon = 0,
      GetrInvModq = map (\<lambda>p. ex_ModInverse (ChainModulus Qr div ChainModulus Q) (modulus p)) Q,
      GetQlQlInvModqlDivqlModq = (\<lambda>l. []),
      GetqlInvModq = (\<lambda>l. map (\<lambda>p. ex_ModInverse (modulus (last Q)) (modulus p)) (butlast Q)),
      GetModuliQ = Moduli Q, Gettgamma = t * 2 ^ 26,
      GettgammaQHatInvModq = [], GettgammaQHatInvModqPrecon = [],
      GetNegInvqModtgamma = [], GetNegInvqModtgammaPrecon = []\<rparr>"

definition ex_cc :: "CryptoParameters \<Rightarrow> CryptoContext" where
  "ex_cc cp = \<lparr>GetCryptoParameters = cp\<rparr>"


definition ex_EncryptZeroCore_priv :: "int list \<Rightarrow> PrivateKey \<Rightarrow> ILDCRTParams \<Rightarrow> error + DCRTPoly list" where
  "ex_EncryptZeroCore_priv e privateKey params =
     (let s = GetPrivateElement privateKey;
          s1 = DropLastElements (length (m_vectors s) - length params) s;
          a = \<lparr>m_vectors =
                 map (\<lambda>p. \<lparr>np_params = p,
                           np_values = map (\<lambda>i. (3 + 2 * i) mod modulus p) [0..<ringDimension p]\<rparr>) params,
               m_format = EVALUATION\<rparr>;
          en = \<lparr>m_vectors =
                  map (\<lambda>p. \<lparr>np_params = p,
                            np_values = ex_SwitchFormat p EVALUATION
                                          (map (\<lambda>v. nat (v mod int (modulus p))) e)\<rparr>) params,
                m_format = EVALUATION\<rparr>
      in bindE (Times a s1) (\<lambda>as. bindE (Minus en as) (\<lambda>b. Inr [b, a])))"

definition ex_EncryptZeroCore_pub :: "int list \<Rightarrow> PublicKey \<Rightarrow> ILDCRTParams \<Rightarrow> error + DCRTPoly list" where
  "ex_EncryptZeroCore_pub e publicKey1 params =
     (let en = \<lparr>m_vectors =
                  map (\<lambda>p. \<lparr>np_params = p,
                            np_values = ex_SwitchFormat p EVALUATION
                                          (map (\<lambda>v. nat (v mod int (modulus p))) e)\<rparr>) params,
                m_format = EVALUATION\<rparr>
      in bindE (ElementAt (GetPublicElements publicKey1) 0) (\<lambda>b.
         bindE (ElementAt (GetPublicElements publicKey1) 1) (\<lambda>a.
         bindE (Plus (DropLastElements (length (m_vectors b) - length params) b) en) (\<lambda>b1.
           Inr [b1, DropLastElements (length (m_vectors a) - length params) a]))))"

definition ex_DecryptCore :: "DCRTPoly list \<Rightarrow> PrivateKey \<Rightarrow> error + DCRTPoly" where
  "ex_DecryptCore cv privateKey =
     bindE (ElementAt cv 0) (\<lambda>c0.
     bindE (ElementAt cv 1) (\<lambda>c1.
       let s = GetPrivateElement privateKey;
           s1 = DropLastElements (length (m_vectors s) - length (m_vectors c1)) s
       in bindE (Times c1 s1) (\<lambda>p. Plus c0 p)))"

definition ex_RescaleTower :: "Format \<Rightarrow> nat list \<Rightarrow> nat list \<Rightarrow> nat \<Rightarrow> NativePoly \<Rightarrow> NativePoly \<Rightarrow> nat list" where
  "ex_RescaleTower fmt QlQlInvModqlDivqlModq qlInvModq i lastPoly x =
     (let ql = modulus (np_params lastPoly);
          qi = modulus (np_params x);
          lastc = (if fmt = EVALUATION
                   then ex_SwitchFormat (np_params lastPoly) COEFFICIENT (np_values lastPoly)
                   else np_values lastPoly);
          xc = (if fmt = EVALUATION then ex_SwitchFormat (np_params x) COEFFICIENT (np_values x)
                else np_values x);
          yc = map2 (\<lambda>v w. (((if ql < 2 * w then v + (ql - w) else v + qi * ql - w) mod qi) *
                           ex_ModInverse ql qi) mod qi) xc lastc
      in if fmt = EVALUATION then ex_SwitchFormat (np_params x) EVALUATION yc else yc)"

definition ex_ext :: "int list \<Rightarrow> Collaborators" where
  "ex_ext e =
     \<lparr>SwitchFormat = ex_SwitchFormat,
      EncryptZeroCore_priv = ex_EncryptZeroCore_priv e,
      EncryptZeroCore_pub = ex_EncryptZeroCore_pub e,
      DecryptCore = ex_DecryptCore,
      ScaleAndRound_gamma = (\<lambda>moduliQ t tgamma tab1 tab2 tab3 tab4 b. ScaleAndRound t b),
      RescaleTower = ex_RescaleTower\<rparr>"

definition ex_Plaintext :: "nat list \<Rightarrow> ILDCRTParams \<Rightarrow> DCRTPoly" where
  "ex_Plaintext m params = DCRTPoly_of_Poly m params"

definition ex_keys :: "CryptoParameters \<Rightarrow> KeyPair" where
  "ex_keys cp = fst (projr (KeyGenInternal ex_gen (ex_cc cp) False 0))"

text \<open>
  Parameter sets of the instance: two towers with the standard technique, the same with
  the extended technique (extended chain of three towers), three towers, and one tower
  with plaintext modulus 2. \<open>ex_ext_shared\<close> gives the secret-key path the encryption of
  zero of the public-key path (the same randomness on both paths).
\<close>

definition ex_cp_std :: CryptoParameters where
  "ex_cp_std =
     ex_CryptoParameters [ex_t17, ex_t13] [ex_t17, ex_t13, ex_t5] [ex_t17, ex_t13]
       STANDARD HPS UNIFORM_TERNARY 4"

definition ex_cp_ext :: CryptoParameters where
  "ex_cp_ext =
     ex_CryptoParameters [ex_t17, ex_t13] [ex_t17, ex_t13, ex_t5] [ex_t17, ex_t13, ex_t5]
       EXTENDED HPS UNIFORM_TERNARY 4"

definition ex_cp_three :: CryptoParameters where
  "ex_cp_three =
     ex_CryptoParameters [ex_t17, ex_t13, ex_t5] [ex_t17, ex_t13, ex_t5] [ex_t17, ex_t13, ex_t5]
       STANDARD HPS UNIFORM_TERNARY 4"


definition ex_ext_shared :: "int list \<Rightarrow> PublicKey \<Rightarrow> Collaborators" where
  "ex_ext_shared e pubKey =
     (ex_ext e)\<lparr>EncryptZeroCore_priv := (\<lambda>privateKey. ex_EncryptZeroCore_pub e pubKey)\<rparr>"

text \<open>A polynomial of the instance in the transform domain at the towers 17 and 13.\<close>

definition ex_poly :: "nat list \<Rightarrow> nat list \<Rightarrow> DCRTPoly" where
  "ex_poly a b =
     \<lparr>m_vectors = [\<lparr>np_params = ex_t17, np_values = a\<rparr>, \<lparr>np_params = ex_t13, np_values = b\<rparr>],
      m_format = EVALUATION\<rparr>"

text \<open>
  Ciphertexts of the instance, all of the public-key path under the key pair of key
  generation: of \<open>[1, 3]\<close> at two towers out of two, of \<open>[1, 0]\<close> at the one tower with
  noise polynomial \<open>[5, 0]\<close>, and of \<open>[1, 3]\<close> at two towers out of three.
\<close>

definition ex_ct_std :: Ciphertext where
  "ex_ct_std =
     projr (Encrypt_pub (ex_ext [1, - 1]) (ex_Plaintext [1, 3] [ex_t17, ex_t13])
              (kp_publicKey (ex_keys ex_cp_std)))"


definition ex_ct_three :: Ciphertext where
  "ex_ct_three =
     projr (Encrypt_pub (ex_ext [1, - 1]) (ex_Plaintext [1, 3] [ex_t17, ex_t13])
              (kp_publicKey (ex_keys ex_cp_three)))"

section \<open>Key generation: properties\<close>

lemma SampleTowers_params: "map np_params (fst (SampleTowers draw ps g)) = ps"
  by (induction ps arbitrary: g) (simp_all add: case_prod_beta Let_def)

lemma DCRTPoly_sampled_params: "GetParams (fst (DCRTPoly_sampled draw ps fmt g)) = ps"
  by (simp add: DCRTPoly_sampled_def GetParams_def case_prod_beta SampleTowers_params)

lemma DCRTPoly_sampled_format: "m_format (fst (DCRTPoly_sampled draw ps fmt g)) = fmt"
  by (simp add: DCRTPoly_sampled_def case_prod_beta)

lemma GetParams_length: "GetParams a = ps \<Longrightarrow> length (m_vectors a) = length ps"
  by (auto simp: GetParams_def)

lemma DCRTOp_ok:
  "m_format a = m_format b \<Longrightarrow> length (m_vectors a) = length (m_vectors b) \<Longrightarrow>
   DCRTOp f a b = Inr (a\<lparr>m_vectors := map2 (NativeOp f) (m_vectors a) (m_vectors b)\<rparr>)"
  by (simp add: DCRTOp_def)

lemma NativeOp_params: "np_params (NativeOp f x y) = np_params x"
  by (simp add: NativeOp_def)

lemma map2_NativeOp_params:
  "length xs = length ys \<Longrightarrow> map np_params (map2 (NativeOp f) xs ys) = map np_params xs"
  by (induction xs ys rule: list_induct2) (simp_all add: NativeOp_params)

lemma DCRTOp_Inr:
  "DCRTOp f a b = Inr c \<Longrightarrow>
   m_format c = m_format a \<and> m_format b = m_format a \<and> GetParams c = GetParams a \<and>
   length (m_vectors b) = length (m_vectors a)"
  using map2_NativeOp_params [of "m_vectors a" "m_vectors b" f]
  by (auto simp: DCRTOp_def GetParams_def simp del: map_map split: if_splits)

lemma TimesScalar_params: "GetParams (TimesScalar c a) = GetParams a"
  by (simp add: TimesScalar_def GetParams_def comp_def)

lemma TimesScalar_format: "m_format (TimesScalar c a) = m_format a"
  by (simp add: TimesScalar_def)

lemma SampleSecret_supported:
  assumes "GetSecretKeyDist cp \<noteq> UNSUPPORTED_DIST"
  shows "m_format (fst (SampleSecret gen cp g)) = EVALUATION"
    and "GetParams (fst (SampleSecret gen cp g)) = GetParamsPK cp"
  using assms
  by (cases "GetSecretKeyDist cp";
      simp add: SampleSecret_def DCRTPoly_dgg_def DCRTPoly_tug_def
        DCRTPoly_sampled_format DCRTPoly_sampled_params)+

text \<open>
  With a supported distribution selector key generation returns: the product and the
  difference are defined, since \<open>s\<close>, \<open>a\<close> and \<open>e\<close> are all drawn in the transform domain
  at the public-key chain.
\<close>

lemma KeyGenInternal_supported:
  assumes sup: "GetSecretKeyDist cp \<noteq> UNSUPPORTED_DIST"
    and cp: "GetCryptoParameters cc = cp"
    and d0: "GenerateUniqueKeyID gen g0 = (tag, g1)"
    and d1: "SampleSecret gen cp g1 = (s, g2)"
    and d2: "DCRTPoly_dug gen (GetParamsPK cp) EVALUATION g2 = (a, g3)"
    and d3: "DCRTPoly_dgg gen (GetParamsPK cp) EVALUATION g3 = (e, g4)"
  shows "\<exists>as b. Times a s = Inr as \<and> Minus (TimesScalar (GetNoiseScale cp) e) as = Inr b \<and>
     GetParams b = GetParamsPK cp \<and> m_format b = EVALUATION \<and>
     KeyGenInternal gen cc makeSparse g0 =
       Inr (\<lparr>kp_publicKey = \<lparr>pk_CryptoParameters = cp, pk_KeyTag = tag, GetPublicElements = [b, a]\<rparr>,
             kp_secretKey = \<lparr>sk_CryptoParameters = cp, sk_KeyTag = tag,
                              GetPrivateElement =
                                (if length (GetParamsPK cp) > length (KeyGenElementParams cp)
                                 then DropLastElements
                                        (length (GetParamsPK cp) - length (KeyGenElementParams cp)) s
                                 else s)\<rparr>\<rparr>, g4)"
proof -
  have fs: "m_format s = EVALUATION" and ps: "GetParams s = GetParamsPK cp"
    using SampleSecret_supported [of cp gen g1] sup d1 by simp_all
  have fa: "m_format a = EVALUATION" and pa: "GetParams a = GetParamsPK cp"
    using DCRTPoly_sampled_format [of "dug_GenerateVector gen" "GetParamsPK cp" EVALUATION g2]
      DCRTPoly_sampled_params [of "dug_GenerateVector gen" "GetParamsPK cp" EVALUATION g2] d2
    by (simp_all add: DCRTPoly_dug_def)
  have fe: "m_format e = EVALUATION" and pe: "GetParams e = GetParamsPK cp"
    using DCRTPoly_sampled_format [of "dgg_GenerateVector gen" "GetParamsPK cp" EVALUATION g3]
      DCRTPoly_sampled_params [of "dgg_GenerateVector gen" "GetParamsPK cp" EVALUATION g3] d3
    by (simp_all add: DCRTPoly_dgg_def)
  note ls = GetParams_length [OF ps] and la = GetParams_length [OF pa]
    and le = GetParams_length [OF pe]
  obtain as where as: "Times a s = Inr as"
    using DCRTOp_ok [of a s ModMul] fa fs la ls by (simp add: Times_def)
  have as_f: "m_format as = EVALUATION"
    using DCRTOp_Inr [of ModMul a s as] as fa by (simp add: Times_def)
  have "GetParams as = GetParamsPK cp"
    using DCRTOp_Inr [of ModMul a s as] as pa by (simp add: Times_def)
  note las = GetParams_length [OF this]
  have "m_format (TimesScalar (GetNoiseScale cp) e) = m_format as"
    by (simp add: TimesScalar_format fe as_f)
  moreover have "length (m_vectors (TimesScalar (GetNoiseScale cp) e)) = length (m_vectors as)"
    by (simp add: TimesScalar_def le las)
  ultimately obtain b where b: "Minus (TimesScalar (GetNoiseScale cp) e) as = Inr b"
    using DCRTOp_ok [of "TimesScalar (GetNoiseScale cp) e" as ModSub] by (simp add: Minus_def)
  have bp: "GetParams b = GetParamsPK cp" and bf: "m_format b = EVALUATION"
    using DCRTOp_Inr [of ModSub "TimesScalar (GetNoiseScale cp) e" as b] b
    by (simp_all add: Minus_def TimesScalar_params TimesScalar_format pe fe)
  have "KeyGenInternal gen cc makeSparse g0 =
       Inr (\<lparr>kp_publicKey = \<lparr>pk_CryptoParameters = cp, pk_KeyTag = tag, GetPublicElements = [b, a]\<rparr>,
             kp_secretKey = \<lparr>sk_CryptoParameters = cp, sk_KeyTag = tag,
                              GetPrivateElement =
                                (if length (GetParamsPK cp) > length (KeyGenElementParams cp)
                                 then DropLastElements
                                        (length (GetParamsPK cp) - length (KeyGenElementParams cp)) s
                                 else s)\<rparr>\<rparr>, g4)"
    using as b by (simp add: KeyGenInternal_def Let_def cp d0 d1 d2 d3 bindE_def)
  with as b bp bf show ?thesis by blast
qed




text \<open>
  C3. With a distribution selector that is none of the three supported ones, key
  generation returns no key material: the secret stays the default-constructed
  polynomial without towers, and the product \<open>a * s\<close> with the \<open>a\<close> drawn at the
  public-key chain (a chain has at least one tower) fails on the tower counts.
\<close>

theorem C3_unsupported_distribution_fails:
  assumes "GetSecretKeyDist (GetCryptoParameters cc) \<notin> {GAUSSIAN, UNIFORM_TERNARY, SPARSE_TERNARY}"
    and "GetParamsPK (GetCryptoParameters cc) \<noteq> []"
  shows "KeyGenInternal gen cc makeSparse g0 = Inl TowerMismatch"
proof -
  let ?cp = "GetCryptoParameters cc"
  have dist: "GetSecretKeyDist ?cp = UNSUPPORTED_DIST"
    using assms(1) by (cases "GetSecretKeyDist ?cp") simp_all
  obtain tag g1 where d0: "GenerateUniqueKeyID gen g0 = (tag, g1)"
    by (cases "GenerateUniqueKeyID gen g0")
  have d1: "SampleSecret gen ?cp g1 = (DCRTPoly_default, g1)"
    using dist by (simp add: SampleSecret_def)
  obtain a g3 where d2: "DCRTPoly_dug gen (GetParamsPK ?cp) EVALUATION g1 = (a, g3)"
    by (cases "DCRTPoly_dug gen (GetParamsPK ?cp) EVALUATION g1")
  obtain e g4 where d3: "DCRTPoly_dgg gen (GetParamsPK ?cp) EVALUATION g3 = (e, g4)"
    by (cases "DCRTPoly_dgg gen (GetParamsPK ?cp) EVALUATION g3")
  have fa: "m_format a = EVALUATION" and pa: "GetParams a = GetParamsPK ?cp"
    using DCRTPoly_sampled_format [of "dug_GenerateVector gen" "GetParamsPK ?cp" EVALUATION g1]
      DCRTPoly_sampled_params [of "dug_GenerateVector gen" "GetParamsPK ?cp" EVALUATION g1] d2
    by (simp_all add: DCRTPoly_dug_def)
  have "m_vectors a \<noteq> []"
    using pa assms(2) by (auto simp: GetParams_def)
  then have "Times a DCRTPoly_default = Inl TowerMismatch"
    using fa by (simp add: Times_def DCRTOp_def DCRTPoly_default_def)
  then show ?thesis
    by (simp add: KeyGenInternal_def Let_def d0 d1 d2 d3 bindE_def)
qed

theorem C3_unsupported_distribution_fails_witness:
  "GetSecretKeyDist (GetCryptoParameters (ex_cc
       (ex_CryptoParameters [ex_t17] [ex_t17, ex_t13] [ex_t17, ex_t13] STANDARD HPS UNSUPPORTED_DIST 4)))
     \<notin> {GAUSSIAN, UNIFORM_TERNARY, SPARSE_TERNARY} \<and>
   GetParamsPK (GetCryptoParameters (ex_cc
       (ex_CryptoParameters [ex_t17] [ex_t17, ex_t13] [ex_t17, ex_t13] STANDARD HPS UNSUPPORTED_DIST 4)))
     \<noteq> [] \<and>
   KeyGenInternal ex_gen (ex_cc
       (ex_CryptoParameters [ex_t17] [ex_t17, ex_t13] [ex_t17, ex_t13] STANDARD HPS UNSUPPORTED_DIST 4))
     True 0 = Inl TowerMismatch"
proof -
  let ?cc = "ex_cc (ex_CryptoParameters [ex_t17] [ex_t17, ex_t13] [ex_t17, ex_t13] STANDARD HPS UNSUPPORTED_DIST 4)"
  have h1: "GetSecretKeyDist (GetCryptoParameters ?cc) \<notin> {GAUSSIAN, UNIFORM_TERNARY, SPARSE_TERNARY}"
    by (simp add: ex_cc_def ex_CryptoParameters_def)
  have h2: "GetParamsPK (GetCryptoParameters ?cc) \<noteq> []"
    by (simp add: ex_cc_def ex_CryptoParameters_def)
  from C3_unsupported_distribution_fails [OF h1 h2, of ex_gen True 0]
  show ?thesis using h1 h2 by blast
qed


text \<open>
  C4 as stated fails: with the \<^verbatim>\<open>EXTENDED\<close> encryption technique, a primary chain of one
  tower and an extended chain of two towers that is also the public-key chain, the
  public-key chain has more towers than the primary chain, and the returned secret key
  keeps both towers.
\<close>

theorem C4_secret_key_truncation_counterexample:
  "length (GetElementParams
      (ex_CryptoParameters [ex_t17] [ex_t17, ex_t13] [ex_t17, ex_t13] EXTENDED HPS UNIFORM_TERNARY 4))
     < length (GetParamsPK
      (ex_CryptoParameters [ex_t17] [ex_t17, ex_t13] [ex_t17, ex_t13] EXTENDED HPS UNIFORM_TERNARY 4)) \<and>
   \<not> isl (KeyGenInternal ex_gen (ex_cc
      (ex_CryptoParameters [ex_t17] [ex_t17, ex_t13] [ex_t17, ex_t13] EXTENDED HPS UNIFORM_TERNARY 4))
      False 0) \<and>
   GetNumOfElements (GetPrivateElement (kp_secretKey (fst (projr (KeyGenInternal ex_gen (ex_cc
      (ex_CryptoParameters [ex_t17] [ex_t17, ex_t13] [ex_t17, ex_t13] EXTENDED HPS UNIFORM_TERNARY 4))
      False 0))))) = 2 \<and>
   length (GetElementParams
      (ex_CryptoParameters [ex_t17] [ex_t17, ex_t13] [ex_t17, ex_t13] EXTENDED HPS UNIFORM_TERNARY 4)) = 1"
  by code_simp

text \<open>
  C4, amended. Key generation with a supported selector returns a key pair whose public
  key \<open>(b, a)\<close> is at the public-key chain. Whenever the public-key chain has more towers
  than the chain \<^verbatim>\<open>elementParams\<close> of key generation (the primary chain, or the extended
  chain \<open>Qr\<close> when the encryption technique is \<^verbatim>\<open>EXTENDED\<close>), the returned secret key is
  the drawn secret without its excess last towers, at that chain's tower count;
  otherwise it is the drawn secret.
\<close>

theorem C4_secret_key_truncation:
  assumes "GetSecretKeyDist cp \<noteq> UNSUPPORTED_DIST"
    and "GetCryptoParameters cc = cp"
    and "GenerateUniqueKeyID gen g0 = (tag, g1)"
    and "SampleSecret gen cp g1 = (s, g2)"
    and "DCRTPoly_dug gen (GetParamsPK cp) EVALUATION g2 = (a, g3)"
    and "DCRTPoly_dgg gen (GetParamsPK cp) EVALUATION g3 = (e, g4)"
  shows "\<exists>kp b.
     KeyGenInternal gen cc makeSparse g0 = Inr (kp, g4) \<and>
     GetPublicElements (kp_publicKey kp) = [b, a] \<and>
     GetParams b = GetParamsPK cp \<and> GetParams a = GetParamsPK cp \<and>
     (length (KeyGenElementParams cp) < length (GetParamsPK cp) \<longrightarrow>
        m_vectors (GetPrivateElement (kp_secretKey kp)) =
          take (length (KeyGenElementParams cp)) (m_vectors s) \<and>
        GetParams (GetPrivateElement (kp_secretKey kp)) =
          take (length (KeyGenElementParams cp)) (GetParamsPK cp) \<and>
        GetNumOfElements (GetPrivateElement (kp_secretKey kp)) = length (KeyGenElementParams cp)) \<and>
     (\<not> length (KeyGenElementParams cp) < length (GetParamsPK cp) \<longrightarrow>
        GetPrivateElement (kp_secretKey kp) = s)"
proof -
  have ps: "GetParams s = GetParamsPK cp"
    using SampleSecret_supported [of cp gen g1] assms(1,4) by simp
  have pa: "GetParams a = GetParamsPK cp"
    using DCRTPoly_sampled_params [of "dug_GenerateVector gen" "GetParamsPK cp" EVALUATION g2] assms(5)
    by (simp add: DCRTPoly_dug_def)
  let ?n = "length (KeyGenElementParams cp)"
  let ?sk = "if ?n < length (GetParamsPK cp)
             then DropLastElements (length (GetParamsPK cp) - ?n) s else s"
  obtain b where b: "GetParams b = GetParamsPK cp"
    and kg: "KeyGenInternal gen cc makeSparse g0 =
       Inr (\<lparr>kp_publicKey = \<lparr>pk_CryptoParameters = cp, pk_KeyTag = tag, GetPublicElements = [b, a]\<rparr>,
             kp_secretKey = \<lparr>sk_CryptoParameters = cp, sk_KeyTag = tag,
                              GetPrivateElement = ?sk\<rparr>\<rparr>, g4)"
    using KeyGenInternal_supported [OF assms, of makeSparse] by auto
  have trunc: "m_vectors ?sk = take ?n (m_vectors s)" if "?n < length (GetParamsPK cp)"
    using that GetParams_length [OF ps] by (simp add: DropLastElements_def)
  have "GetParams ?sk = take ?n (GetParamsPK cp)" if "?n < length (GetParamsPK cp)"
    using trunc [OF that] ps by (metis GetParams_def take_map)
  moreover have "GetNumOfElements ?sk = ?n" if "?n < length (GetParamsPK cp)"
    using trunc [OF that] that GetParams_length [OF ps] by (simp add: GetNumOfElements_def)
  ultimately show ?thesis
    using kg b pa trunc by auto
qed

theorem C4_secret_key_truncation_witness:
  "GetSecretKeyDist (ex_CryptoParameters [ex_t17] [ex_t17, ex_t13] [ex_t17, ex_t13] STANDARD HPS GAUSSIAN 4)
     \<noteq> UNSUPPORTED_DIST \<and>
   GenerateUniqueKeyID ex_gen 0 = (''key'', 1) \<and>
   SampleSecret ex_gen
     (ex_CryptoParameters [ex_t17] [ex_t17, ex_t13] [ex_t17, ex_t13] STANDARD HPS GAUSSIAN 4) 1 =
     (\<lparr>m_vectors = [\<lparr>np_params = ex_t17, np_values = [1, 1]\<rparr>,
                    \<lparr>np_params = ex_t13, np_values = [1, 1]\<rparr>],
       m_format = EVALUATION\<rparr>, 3) \<and>
   DCRTPoly_dug ex_gen [ex_t17, ex_t13] EVALUATION 3 =
     (\<lparr>m_vectors = [\<lparr>np_params = ex_t17, np_values = [0, 3]\<rparr>,
                    \<lparr>np_params = ex_t13, np_values = [9, 12]\<rparr>],
       m_format = EVALUATION\<rparr>, 5) \<and>
   DCRTPoly_dgg ex_gen [ex_t17, ex_t13] EVALUATION 5 =
     (\<lparr>m_vectors = [\<lparr>np_params = ex_t17, np_values = [1, 1]\<rparr>,
                    \<lparr>np_params = ex_t13, np_values = [1, 1]\<rparr>],
       m_format = EVALUATION\<rparr>, 7) \<and>
   length (KeyGenElementParams
     (ex_CryptoParameters [ex_t17] [ex_t17, ex_t13] [ex_t17, ex_t13] STANDARD HPS GAUSSIAN 4)) <
   length (GetParamsPK
     (ex_CryptoParameters [ex_t17] [ex_t17, ex_t13] [ex_t17, ex_t13] STANDARD HPS GAUSSIAN 4)) \<and>
   (\<exists>kp b.
      KeyGenInternal ex_gen
        (ex_cc (ex_CryptoParameters [ex_t17] [ex_t17, ex_t13] [ex_t17, ex_t13] STANDARD HPS GAUSSIAN 4))
        False 0 = Inr (kp, 7) \<and>
      GetParams b = [ex_t17, ex_t13] \<and>
      m_vectors (GetPrivateElement (kp_secretKey kp)) = [\<lparr>np_params = ex_t17, np_values = [1, 1]\<rparr>] \<and>
      GetParams (GetPrivateElement (kp_secretKey kp)) = [ex_t17] \<and>
      GetNumOfElements (GetPrivateElement (kp_secretKey kp)) = 1)"
proof -
  let ?cp = "ex_CryptoParameters [ex_t17] [ex_t17, ex_t13] [ex_t17, ex_t13] STANDARD HPS GAUSSIAN 4"
  have pk: "GetParamsPK ?cp = [ex_t17, ex_t13]"
    by (simp add: ex_CryptoParameters_def)
  have ep: "KeyGenElementParams ?cp = [ex_t17]"
    by (simp add: ex_CryptoParameters_def KeyGenElementParams_def)
  have h1: "GetSecretKeyDist ?cp \<noteq> UNSUPPORTED_DIST"
    by (simp add: ex_CryptoParameters_def)
  have h2: "GetCryptoParameters (ex_cc ?cp) = ?cp"
    by (simp add: ex_cc_def)
  have h3: "GenerateUniqueKeyID ex_gen 0 = (''key'', 1)"
    by (simp add: ex_gen_def)
  have h4: "SampleSecret ex_gen ?cp 1 =
     (\<lparr>m_vectors = [\<lparr>np_params = ex_t17, np_values = [1, 1]\<rparr>,
                    \<lparr>np_params = ex_t13, np_values = [1, 1]\<rparr>],
       m_format = EVALUATION\<rparr>, 3)"
    by code_simp
  have h5: "DCRTPoly_dug ex_gen (GetParamsPK ?cp) EVALUATION 3 =
     (\<lparr>m_vectors = [\<lparr>np_params = ex_t17, np_values = [0, 3]\<rparr>,
                    \<lparr>np_params = ex_t13, np_values = [9, 12]\<rparr>],
       m_format = EVALUATION\<rparr>, 5)"
    unfolding pk by code_simp
  have h6: "DCRTPoly_dgg ex_gen (GetParamsPK ?cp) EVALUATION 5 =
     (\<lparr>m_vectors = [\<lparr>np_params = ex_t17, np_values = [1, 1]\<rparr>,
                    \<lparr>np_params = ex_t13, np_values = [1, 1]\<rparr>],
       m_format = EVALUATION\<rparr>, 7)"
    unfolding pk by code_simp
  have h7: "length (KeyGenElementParams ?cp) < length (GetParamsPK ?cp)"
    by (simp add: pk ep)
  from C4_secret_key_truncation [OF h1 h2 h3 h4 h5 h6, of False]
  show ?thesis using h1 h3 h4 h5 h6 h7 unfolding pk ep by auto
qed

text \<open>
  C10. With the sparse ternary distribution the secret key is the draw of the ternary
  generator with Hamming weight 192 (cut to the size of \<^verbatim>\<open>elementParams\<close> when the
  public-key chain is longer), whatever the other parameters and the flag
  \<^verbatim>\<open>makeSparse\<close> are.
\<close>

theorem C10_sparse_ternary_hamming_weight:
  assumes "GetSecretKeyDist (GetCryptoParameters cc) = SPARSE_TERNARY"
    and "GenerateUniqueKeyID gen g0 = (tag, g1)"
    and "DCRTPoly_tug gen (GetParamsPK (GetCryptoParameters cc)) EVALUATION 192 g1 = (s, g2)"
  shows "\<exists>kp g'.
     KeyGenInternal gen cc makeSparse g0 = Inr (kp, g') \<and>
     GetPrivateElement (kp_secretKey kp) =
       DropLastElements
         (length (GetParamsPK (GetCryptoParameters cc)) -
          length (KeyGenElementParams (GetCryptoParameters cc))) s"
proof -
  let ?cp = "GetCryptoParameters cc"
  have d1: "SampleSecret gen ?cp g1 = (s, g2)"
    using assms(1,3) by (simp add: SampleSecret_def)
  obtain a g3 where d2: "DCRTPoly_dug gen (GetParamsPK ?cp) EVALUATION g2 = (a, g3)"
    by (cases "DCRTPoly_dug gen (GetParamsPK ?cp) EVALUATION g2")
  obtain e g4 where d3: "DCRTPoly_dgg gen (GetParamsPK ?cp) EVALUATION g3 = (e, g4)"
    by (cases "DCRTPoly_dgg gen (GetParamsPK ?cp) EVALUATION g3")
  have sup: "GetSecretKeyDist ?cp \<noteq> UNSUPPORTED_DIST"
    using assms(1) by simp
  have "DropLastElements 0 s = s"
    by (simp add: DropLastElements_def)
  then have "(if length (KeyGenElementParams ?cp) < length (GetParamsPK ?cp)
         then DropLastElements (length (GetParamsPK ?cp) - length (KeyGenElementParams ?cp)) s
         else s) =
        DropLastElements (length (GetParamsPK ?cp) - length (KeyGenElementParams ?cp)) s"
    by simp
  then show ?thesis
    using KeyGenInternal_supported [OF sup refl assms(2) d1 d2 d3, of makeSparse] by auto
qed

theorem C10_sparse_ternary_hamming_weight_witness:
  "GetSecretKeyDist (GetCryptoParameters (ex_cc
      (ex_CryptoParameters [ex_t17] [ex_t17, ex_t13] [ex_t17, ex_t13] STANDARD HPS SPARSE_TERNARY 4)))
     = SPARSE_TERNARY \<and>
   GenerateUniqueKeyID ex_gen 0 = (''key'', 1) \<and>
   DCRTPoly_tug ex_gen [ex_t17, ex_t13] EVALUATION 192 1 =
     (\<lparr>m_vectors = [\<lparr>np_params = ex_t17, np_values = [1, 1]\<rparr>,
                    \<lparr>np_params = ex_t13, np_values = [1, 1]\<rparr>],
       m_format = EVALUATION\<rparr>, 3) \<and>
   (\<exists>kp g'.
      KeyGenInternal ex_gen (ex_cc
        (ex_CryptoParameters [ex_t17] [ex_t17, ex_t13] [ex_t17, ex_t13] STANDARD HPS SPARSE_TERNARY 4))
        True 0 = Inr (kp, g') \<and>
      GetPrivateElement (kp_secretKey kp) =
        \<lparr>m_vectors = [\<lparr>np_params = ex_t17, np_values = [1, 1]\<rparr>], m_format = EVALUATION\<rparr>)"
proof -
  let ?cp = "ex_CryptoParameters [ex_t17] [ex_t17, ex_t13] [ex_t17, ex_t13] STANDARD HPS SPARSE_TERNARY 4"
  have cc: "GetCryptoParameters (ex_cc ?cp) = ?cp"
    by (simp add: ex_cc_def)
  have pk: "GetParamsPK ?cp = [ex_t17, ex_t13]"
    by (simp add: ex_CryptoParameters_def)
  have ep: "KeyGenElementParams ?cp = [ex_t17]"
    by (simp add: ex_CryptoParameters_def KeyGenElementParams_def)
  have h1: "GetSecretKeyDist (GetCryptoParameters (ex_cc ?cp)) = SPARSE_TERNARY"
    by (simp add: ex_cc_def ex_CryptoParameters_def)
  have h2: "GenerateUniqueKeyID ex_gen 0 = (''key'', 1)"
    by (simp add: ex_gen_def)
  have h3: "DCRTPoly_tug ex_gen (GetParamsPK (GetCryptoParameters (ex_cc ?cp))) EVALUATION 192 1 =
     (\<lparr>m_vectors = [\<lparr>np_params = ex_t17, np_values = [1, 1]\<rparr>,
                    \<lparr>np_params = ex_t13, np_values = [1, 1]\<rparr>],
       m_format = EVALUATION\<rparr>, 3)"
    unfolding cc pk by code_simp
  have drop: "DropLastElements (length [ex_t17, ex_t13] - length [ex_t17])
       \<lparr>m_vectors = [\<lparr>np_params = ex_t17, np_values = [1, 1]\<rparr>,
                    \<lparr>np_params = ex_t13, np_values = [1, 1]\<rparr>],
       m_format = EVALUATION\<rparr> =
     \<lparr>m_vectors = [\<lparr>np_params = ex_t17, np_values = [1, 1]\<rparr>], m_format = EVALUATION\<rparr>"
    by (simp add: DropLastElements_def)
  from C10_sparse_ternary_hamming_weight [OF h1 h2 h3, of True]
  show ?thesis using h1 h2 h3 unfolding cc pk ep drop by blast
qed

section \<open>Encryption: properties\<close>

lemma bindE_Inr [simp]: "bindE (Inr x) f = f x"
  by (simp add: bindE_def)

lemma bindE_Inl [simp]: "bindE (Inl e) f = Inl e"
  by (simp add: bindE_def)

lemma KeyGenInternal_key_meta:
  assumes "GetSecretKeyDist (GetCryptoParameters cc) \<noteq> UNSUPPORTED_DIST"
  shows "\<exists>kp g. KeyGenInternal gen cc makeSparse g0 = Inr (kp, g) \<and>
     sk_CryptoParameters (kp_secretKey kp) = GetCryptoParameters cc \<and>
     pk_CryptoParameters (kp_publicKey kp) = GetCryptoParameters cc \<and>
     sk_KeyTag (kp_secretKey kp) = pk_KeyTag (kp_publicKey kp)"
proof -
  let ?cp = "GetCryptoParameters cc"
  obtain tag g1 where d0: "GenerateUniqueKeyID gen g0 = (tag, g1)"
    by (cases "GenerateUniqueKeyID gen g0")
  obtain s g2 where d1: "SampleSecret gen ?cp g1 = (s, g2)"
    by (cases "SampleSecret gen ?cp g1")
  obtain a g3 where d2: "DCRTPoly_dug gen (GetParamsPK ?cp) EVALUATION g2 = (a, g3)"
    by (cases "DCRTPoly_dug gen (GetParamsPK ?cp) EVALUATION g2")
  obtain e g4 where d3: "DCRTPoly_dgg gen (GetParamsPK ?cp) EVALUATION g3 = (e, g4)"
    by (cases "DCRTPoly_dgg gen (GetParamsPK ?cp) EVALUATION g3")
  show ?thesis
    using KeyGenInternal_supported [OF assms refl d0 d1 d2 d3, of makeSparse] by auto
qed

lemma ex_keys_meta:
  assumes "GetSecretKeyDist cp \<noteq> UNSUPPORTED_DIST"
  shows "sk_CryptoParameters (kp_secretKey (ex_keys cp)) = cp"
    and "pk_CryptoParameters (kp_publicKey (ex_keys cp)) = cp"
    and "sk_KeyTag (kp_secretKey (ex_keys cp)) = pk_KeyTag (kp_publicKey (ex_keys cp))"
  using KeyGenInternal_key_meta [of "ex_cc cp" ex_gen False 0] assms
  by (auto simp: ex_keys_def ex_cc_def)

text \<open>
  C5. For the same plaintext polynomial and a key pair with the same parameters and key
  tag, when the external encryption of zero returns the same pair under the secret key
  as under the public key (at the chain the encryption uses), the symmetric and the
  asymmetric entry point return the same result, the same ciphertext when they return
  one; so decryption of the one is decryption of the other.
\<close>

theorem C5_symmetric_asymmetric_consistency:
  assumes "sk_CryptoParameters privateKey = pk_CryptoParameters pubKey"
    and "sk_KeyTag privateKey = pk_KeyTag pubKey"
    and "EncryptZeroCore_priv ext privateKey
           (if GetEncryptionTechnique (pk_CryptoParameters pubKey) = EXTENDED
            then GetParamsQr (pk_CryptoParameters pubKey) else GetParams ptxt) =
         EncryptZeroCore_pub ext pubKey
           (if GetEncryptionTechnique (pk_CryptoParameters pubKey) = EXTENDED
            then GetParamsQr (pk_CryptoParameters pubKey) else GetParams ptxt)"
  shows "Encrypt_priv ext ptxt privateKey = Encrypt_pub ext ptxt pubKey \<and>
     bindE (Encrypt_priv ext ptxt privateKey) (\<lambda>ct. Decrypt ext ct privateKey) =
     bindE (Encrypt_pub ext ptxt pubKey) (\<lambda>ct. Decrypt ext ct privateKey)"
proof -
  have "Encrypt_priv ext ptxt privateKey = Encrypt_pub ext ptxt pubKey"
    unfolding Encrypt_priv_def Encrypt_pub_def Let_def assms(1,2)
    using assms(3) by (simp add: assms(1))
  then show ?thesis by simp
qed


theorem C5_symmetric_asymmetric_consistency_witness:
  "sk_CryptoParameters (kp_secretKey (ex_keys ex_cp_std)) =
     pk_CryptoParameters (kp_publicKey (ex_keys ex_cp_std)) \<and>
   sk_KeyTag (kp_secretKey (ex_keys ex_cp_std)) = pk_KeyTag (kp_publicKey (ex_keys ex_cp_std)) \<and>
   EncryptZeroCore_priv (ex_ext_shared [1, - 1] (kp_publicKey (ex_keys ex_cp_std)))
     (kp_secretKey (ex_keys ex_cp_std)) [ex_t17, ex_t13] =
   EncryptZeroCore_pub (ex_ext_shared [1, - 1] (kp_publicKey (ex_keys ex_cp_std)))
     (kp_publicKey (ex_keys ex_cp_std)) [ex_t17, ex_t13] \<and>
   Encrypt_priv (ex_ext_shared [1, - 1] (kp_publicKey (ex_keys ex_cp_std)))
     (ex_Plaintext [1, 3] [ex_t17, ex_t13]) (kp_secretKey (ex_keys ex_cp_std)) =
   Encrypt_pub (ex_ext_shared [1, - 1] (kp_publicKey (ex_keys ex_cp_std)))
     (ex_Plaintext [1, 3] [ex_t17, ex_t13]) (kp_publicKey (ex_keys ex_cp_std)) \<and>
   map_sum id GetElements
     (Encrypt_pub (ex_ext_shared [1, - 1] (kp_publicKey (ex_keys ex_cp_std)))
        (ex_Plaintext [1, 3] [ex_t17, ex_t13]) (kp_publicKey (ex_keys ex_cp_std))) =
   Inr [\<lparr>m_vectors = [\<lparr>np_params = ex_t17, np_values = [16, 16]\<rparr>,
                      \<lparr>np_params = ex_t13, np_values = [2, 3]\<rparr>],
         m_format = EVALUATION\<rparr>,
        \<lparr>m_vectors = [\<lparr>np_params = ex_t17, np_values = [0, 3]\<rparr>,
                      \<lparr>np_params = ex_t13, np_values = [9, 12]\<rparr>],
         m_format = EVALUATION\<rparr>]"
proof -
  let ?pk = "kp_publicKey (ex_keys ex_cp_std)"
  let ?sk = "kp_secretKey (ex_keys ex_cp_std)"
  let ?ext = "ex_ext_shared [1, - 1] ?pk"
  let ?ptxt = "ex_Plaintext [1, 3] [ex_t17, ex_t13]"
  have sup: "GetSecretKeyDist ex_cp_std \<noteq> UNSUPPORTED_DIST"
    by (simp add: ex_cp_std_def ex_CryptoParameters_def)
  note meta = ex_keys_meta [OF sup]
  have h1: "sk_CryptoParameters ?sk = pk_CryptoParameters ?pk"
    by (simp add: meta)
  have h2: "sk_KeyTag ?sk = pk_KeyTag ?pk"
    by (rule meta(3))
  have chain: "(if GetEncryptionTechnique (pk_CryptoParameters ?pk) = EXTENDED
                then GetParamsQr (pk_CryptoParameters ?pk) else GetParams ?ptxt) = [ex_t17, ex_t13]"
    unfolding meta(2)
    by (simp add: ex_cp_std_def ex_CryptoParameters_def ex_Plaintext_def
        DCRTPoly_of_Poly_def GetParams_def)
  have h3: "EncryptZeroCore_priv ?ext ?sk [ex_t17, ex_t13] = EncryptZeroCore_pub ?ext ?pk [ex_t17, ex_t13]"
    by (simp add: ex_ext_shared_def ex_ext_def)
  have elems: "map_sum id GetElements (Encrypt_pub ?ext ?ptxt ?pk) =
     Inr [\<lparr>m_vectors = [\<lparr>np_params = ex_t17, np_values = [16, 16]\<rparr>,
                        \<lparr>np_params = ex_t13, np_values = [2, 3]\<rparr>],
           m_format = EVALUATION\<rparr>,
          \<lparr>m_vectors = [\<lparr>np_params = ex_t17, np_values = [0, 3]\<rparr>,
                        \<lparr>np_params = ex_t13, np_values = [9, 12]\<rparr>],
           m_format = EVALUATION\<rparr>]"
    by code_simp
  from C5_symmetric_asymmetric_consistency [OF h1 h2, of ?ext ?ptxt] h3 chain
  have "Encrypt_priv ?ext ?ptxt ?sk = Encrypt_pub ?ext ?ptxt ?pk"
    by simp
  then show ?thesis using h1 h2 h3 elems by blast
qed

section \<open>Decryption: properties\<close>

declare DropLoop.simps [simp del]

declare NoiseLoop.simps [simp del]

lemma size_t_sub_exact: "y \<le> x \<Longrightarrow> x < 2 ^ 64 \<Longrightarrow> size_t_sub x y = x - y"
proof -
  assume a: "y \<le> x" "x < 2 ^ 64"
  then have "y mod 2 ^ 64 = y" by simp
  then have "size_t_sub x y = (x - y + 2 ^ 64) mod 2 ^ 64"
    using a by (simp add: size_t_sub_def)
  also have "\<dots> = (x - y) mod 2 ^ 64" by simp
  also have "\<dots> = x - y" using a by simp
  finally show ?thesis .
qed

lemma SetFormat_towers:
  "length (m_vectors (SetFormat ext fmt a)) = length (m_vectors a)"
  "GetParams (SetFormat ext fmt a) = GetParams a"
  "m_format (SetFormat ext fmt a) = fmt"
  by (simp_all add: SetFormat_def GetParams_def comp_def)

lemma DropLastElementAndScale_ok:
  assumes "m_vectors a \<noteq> []"
  shows "\<exists>a'. DropLastElementAndScale ext tab1 tab2 a = Inr a' \<and>
     length (m_vectors a') = length (m_vectors a) - 1 \<and>
     m_format a' = m_format a \<and> GetParams a' = butlast (GetParams a)"
proof -
  let ?rest = "butlast (m_vectors a)"
  let ?a' = "a\<lparr>m_vectors :=
      map (\<lambda>i. (?rest ! i)\<lparr>np_values :=
              RescaleTower ext (m_format a) tab1 tab2 i (last (m_vectors a)) (?rest ! i)\<rparr>)
        [0..<length ?rest]\<rparr>"
  have "DropLastElementAndScale ext tab1 tab2 a = Inr ?a'"
    using assms by (simp add: DropLastElementAndScale_def Let_def)
  moreover have "length (m_vectors ?a') = length (m_vectors a) - 1"
    by simp
  moreover have "GetParams ?a' = butlast (GetParams a)"
    by (simp add: GetParams_def map_butlast [symmetric] comp_def) (simp add: list_eq_iff_nth_eq)
  ultimately show ?thesis by (intro exI [of _ ?a']) simp
qed

lemma DropLoop_one_tower:
  assumes "l \<le> levels" and "length (m_vectors b) = levels - l + 1"
  shows "\<exists>b1. DropLoop ext cp diffQl levels l b = Inr b1 \<and> length (m_vectors b1) = 1 \<and>
     m_format b1 = m_format b \<and> GetParams b1 = take 1 (GetParams b)"
  using assms
proof (induction ext cp diffQl levels l b rule: DropLoop.induct)
  case (1 ext cp diffQl levels l b)
  show ?case
  proof (cases "l < levels")
    case False
    then have "length (m_vectors b) = 1" using "1.prems" by simp
    moreover from this have "take 1 (GetParams b) = GetParams b"
      by (simp add: GetParams_def)
    ultimately show ?thesis
      using False by (subst DropLoop.simps) simp
  next
    case True
    then have ne: "m_vectors b \<noteq> []" using "1.prems" by auto
    obtain b' where b': "DropLastElementAndScale ext (GetQlQlInvModqlDivqlModq cp (diffQl + l))
          (GetqlInvModq cp (diffQl + l)) b = Inr b'"
      and len: "length (m_vectors b') = length (m_vectors b) - 1"
      and fmt: "m_format b' = m_format b"
      and par: "GetParams b' = butlast (GetParams b)"
      using DropLastElementAndScale_ok [OF ne] by blast
    have "l + 1 \<le> levels" "length (m_vectors b') = levels - (l + 1) + 1"
      using True "1.prems" len by simp_all
    from "1.IH" [OF True b' this]
    obtain b1 where b1: "DropLoop ext cp diffQl levels (l + 1) b' = Inr b1"
      "length (m_vectors b1) = 1" "m_format b1 = m_format b'"
      "GetParams b1 = take 1 (GetParams b')"
      by blast
    have "length (GetParams b) \<ge> 2"
      using True "1.prems" by (simp add: GetParams_def)
    then have "take 1 (butlast (GetParams b)) = take 1 (GetParams b)"
      by (simp add: take_butlast)
    then show ?thesis
      using True b' b1 fmt par by (subst DropLoop.simps) simp
  qed
qed
















text \<open>
  C7. When the decrypt-core value \<open>b\<close> has fewer towers than the full chain (and at least
  one, as every ciphertext has), decryption takes the fallback path: the loop drops the
  last tower and rescales \<open>sizeQl - 1\<close> times, which leaves exactly one tower, at the first
  modulus of \<open>b\<close>; in the coefficient domain the values \<open>v\<close> of that tower become
  \<open>round (v * t / q) mod t\<close> for the remaining modulus \<open>q\<close>, in a polynomial of modulus
  \<open>t\<close> with root of unity one.
\<close>

theorem C7_compressed_fallback:
  assumes "DecryptCore ext (GetElements ct) privateKey = Inr b"
    and "0 < GetNumOfElements b"
    and "GetNumOfElements b < length (GetElementParams (sk_CryptoParameters privateKey))"
    and "length (GetElementParams (sk_CryptoParameters privateKey)) < 2 ^ 64"
  shows "\<exists>b1 x.
     DropLoop ext (sk_CryptoParameters privateKey)
       (length (GetElementParams (sk_CryptoParameters privateKey)) - GetNumOfElements b)
       (GetNumOfElements b - 1) 0 b = Inr b1 \<and>
     m_vectors (SetFormat ext COEFFICIENT b1) = [x] \<and>
     [np_params x] = take 1 (GetParams b) \<and>
     Decrypt ext ct privateKey =
       Inr (\<lparr>np_params = (np_params x)\<lparr>modulus := GetPlaintextModulus (sk_CryptoParameters privateKey),
                                          rootOfUnity := 1\<rparr>,
             np_values =
               map (\<lambda>v. RoundDiv (v * GetPlaintextModulus (sk_CryptoParameters privateKey))
                            (modulus (np_params x)) mod
                          GetPlaintextModulus (sk_CryptoParameters privateKey))
                 (np_values x)\<rparr>,
            length (np_values x))"
proof -
  let ?cp = "sk_CryptoParameters privateKey"
  let ?n = "GetNumOfElements b"
  let ?sizeQ = "length (GetElementParams ?cp)"
  have d: "size_t_sub ?sizeQ ?n = ?sizeQ - ?n"
    using assms(3,4) by (intro size_t_sub_exact) simp_all
  have "size_t_sub ?n 1 = ?n - 1"
    using assms(2,3,4) by (intro size_t_sub_exact) simp_all
  then have l: "size_t_sub ?n (Suc 0) = ?n - Suc 0"
    by simp
  have "length (m_vectors b) = (?n - 1) - 0 + 1"
    using assms(2) by (simp add: GetNumOfElements_def)
  from DropLoop_one_tower [OF _ this, of ext ?cp "?sizeQ - ?n"]
  obtain b1 where b1: "DropLoop ext ?cp (?sizeQ - ?n) (?n - 1) 0 b = Inr b1"
    and len: "length (m_vectors b1) = 1" and par: "GetParams b1 = take 1 (GetParams b)"
    by auto
  have "length (m_vectors (SetFormat ext COEFFICIENT b1)) = 1"
    using len by (simp add: SetFormat_towers)
  then obtain x where x: "m_vectors (SetFormat ext COEFFICIENT b1) = [x]"
    by (cases "m_vectors (SetFormat ext COEFFICIENT b1)") auto
  have "GetParams (SetFormat ext COEFFICIENT b1) = [np_params x]"
    using x by (simp add: GetParams_def)
  then have px: "[np_params x] = take 1 (GetParams b)"
    using par by (simp add: SetFormat_towers)
  have "Decrypt ext ct privateKey =
       Inr (SwitchModulus (GetPlaintextModulus ?cp) 1
              (MultiplyAndRound (GetPlaintextModulus ?cp) (modulus (np_params x)) x),
            length (np_values (SwitchModulus (GetPlaintextModulus ?cp) 1
              (MultiplyAndRound (GetPlaintextModulus ?cp) (modulus (np_params x)) x))))"
    using assms(1,3) b1 x by (simp add: Decrypt_def Let_def d l ElementAt_def)
  then show ?thesis
    using b1 x px by (simp add: SwitchModulus_def MultiplyAndRound_def comp_def)
qed


theorem C7_compressed_fallback_witness:
  "DecryptCore (ex_ext [1, - 1]) (GetElements ex_ct_three) (kp_secretKey (ex_keys ex_cp_three)) =
     Inr \<lparr>m_vectors = [\<lparr>np_params = ex_t17, np_values = [16, 13]\<rparr>,
                        \<lparr>np_params = ex_t13, np_values = [6, 4]\<rparr>],
           m_format = EVALUATION\<rparr> \<and>
   length (GetElementParams (sk_CryptoParameters (kp_secretKey (ex_keys ex_cp_three)))) = 3 \<and>
   DropLoop (ex_ext [1, - 1]) (sk_CryptoParameters (kp_secretKey (ex_keys ex_cp_three))) 1 1 0
     \<lparr>m_vectors = [\<lparr>np_params = ex_t17, np_values = [16, 13]\<rparr>,
                    \<lparr>np_params = ex_t13, np_values = [6, 4]\<rparr>],
       m_format = EVALUATION\<rparr> =
     Inr \<lparr>m_vectors = [\<lparr>np_params = ex_t17, np_values = [5, 3]\<rparr>], m_format = EVALUATION\<rparr> \<and>
   m_vectors (SetFormat (ex_ext [1, - 1]) COEFFICIENT
      \<lparr>m_vectors = [\<lparr>np_params = ex_t17, np_values = [5, 3]\<rparr>], m_format = EVALUATION\<rparr>) =
     [\<lparr>np_params = ex_t17, np_values = [4, 13]\<rparr>] \<and>
   Decrypt (ex_ext [1, - 1]) ex_ct_three (kp_secretKey (ex_keys ex_cp_three)) =
     Inr (\<lparr>np_params = \<lparr>ringDimension = 2, modulus = 4, rootOfUnity = 1\<rparr>,
           np_values = [1, 3]\<rparr>, 2)"
proof -
  let ?ext = "ex_ext [1, - 1]"
  let ?sk = "kp_secretKey (ex_keys ex_cp_three)"
  let ?b = "\<lparr>m_vectors = [\<lparr>np_params = ex_t17, np_values = [16, 13]\<rparr>,
                          \<lparr>np_params = ex_t13, np_values = [6, 4]\<rparr>],
             m_format = EVALUATION\<rparr>"
  let ?b1 = "\<lparr>m_vectors = [\<lparr>np_params = ex_t17, np_values = [5, 3]\<rparr>], m_format = EVALUATION\<rparr>"
  have sup: "GetSecretKeyDist ex_cp_three \<noteq> UNSUPPORTED_DIST"
    by (simp add: ex_cp_three_def ex_CryptoParameters_def)
  have cp: "sk_CryptoParameters ?sk = ex_cp_three"
    by (rule ex_keys_meta(1) [OF sup])
  have q: "length (GetElementParams ex_cp_three) = 3" and t: "GetPlaintextModulus ex_cp_three = 4"
    by (simp_all add: ex_cp_three_def ex_CryptoParameters_def)
  have n: "GetNumOfElements ?b = 2"
    by (simp add: GetNumOfElements_def)
  have h1: "DecryptCore ?ext (GetElements ex_ct_three) ?sk = Inr ?b"
    by code_simp
  have h2: "0 < GetNumOfElements ?b"
    unfolding n by simp
  have h3: "GetNumOfElements ?b < length (GetElementParams (sk_CryptoParameters ?sk))"
    unfolding n cp q by simp
  have h4: "length (GetElementParams (sk_CryptoParameters ?sk)) < 2 ^ 64"
    unfolding cp q by simp
  have loop: "DropLoop ?ext (sk_CryptoParameters ?sk) 1 1 0 ?b = Inr ?b1"
    by code_simp
  have sf: "m_vectors (SetFormat ?ext COEFFICIENT ?b1) = [\<lparr>np_params = ex_t17, np_values = [4, 13]\<rparr>]"
    by code_simp
  from C7_compressed_fallback [OF h1 h2 h3 h4]
  obtain b1 x where
    "DropLoop ?ext (sk_CryptoParameters ?sk) 1 1 0 ?b = Inr b1"
    "m_vectors (SetFormat ?ext COEFFICIENT b1) = [x]"
    and dec: "Decrypt ?ext ex_ct_three ?sk =
       Inr (\<lparr>np_params = (np_params x)\<lparr>modulus := 4, rootOfUnity := 1\<rparr>,
             np_values = map (\<lambda>v. RoundDiv (v * 4) (modulus (np_params x)) mod 4) (np_values x)\<rparr>,
            length (np_values x))"
    unfolding n cp q t by auto
  then have "x = \<lparr>np_params = ex_t17, np_values = [4, 13]\<rparr>"
    using loop sf by simp
  then have "Decrypt ?ext ex_ct_three ?sk =
     Inr (\<lparr>np_params = \<lparr>ringDimension = 2, modulus = 4, rootOfUnity = 1\<rparr>,
           np_values = [1, 3]\<rparr>, 2)"
    using dec by (simp add: ex_t17_def RoundDiv_def)
  then show ?thesis
    using h1 loop sf unfolding cp q by simp
qed

section \<open>Rerandomization: properties\<close>

lemma NoiseLoop_towers:
  assumes "i \<le> n" and "length (m_vectors a) = n" and "n \<le> length ps"
  shows "m_format (fst (NoiseLoop dgg ps n i a g)) = m_format a \<and>
     length (m_vectors (fst (NoiseLoop dgg ps n i a g))) = n \<and>
     (\<forall>j<n. i \<le> j \<longrightarrow> np_params (m_vectors (fst (NoiseLoop dgg ps n i a g)) ! j) = ps ! j) \<and>
     (\<forall>j<i. m_vectors (fst (NoiseLoop dgg ps n i a g)) ! j = m_vectors a ! j)"
  using assms
proof (induction dgg ps n i a g rule: NoiseLoop.induct)
  case (1 dgg ps n i a g)
  show ?case
  proof (cases "i < n")
    case False
    then have "NoiseLoop dgg ps n i a g = (a, g)"
      by (subst NoiseLoop.simps) simp
    then show ?thesis using False "1.prems" by simp
  next
    case True
    define drawn where "drawn = dgg_GenerateVector dgg g (ringDimension (ps ! i)) (modulus (ps ! i))"
    define x where "x = \<lparr>np_params = ps ! i, np_values = fst drawn\<rparr>"
    define a' where "a' = SetElementAtIndex i x a"
    have step: "NoiseLoop dgg ps n i a g = NoiseLoop dgg ps n (i + 1) a' (snd drawn)"
      using True by (subst NoiseLoop.simps) (simp add: Let_def drawn_def x_def a'_def)
    have la': "length (m_vectors a') = n" and fa': "m_format a' = m_format a"
      using "1.prems" by (simp_all add: a'_def SetElementAtIndex_def)
    have IH: "m_format (fst (NoiseLoop dgg ps n (i + 1) a' (snd drawn))) = m_format a' \<and>
       length (m_vectors (fst (NoiseLoop dgg ps n (i + 1) a' (snd drawn)))) = n \<and>
       (\<forall>j<n. i + 1 \<le> j \<longrightarrow>
          np_params (m_vectors (fst (NoiseLoop dgg ps n (i + 1) a' (snd drawn))) ! j) = ps ! j) \<and>
       (\<forall>j<i + 1. m_vectors (fst (NoiseLoop dgg ps n (i + 1) a' (snd drawn))) ! j = m_vectors a' ! j)"
      using "1.IH" [OF True refl refl drawn_def x_def, folded a'_def] True la'
        "1.prems"(3)
      by simp
    have at_i: "m_vectors a' ! i = x"
      using True "1.prems" by (simp add: a'_def SetElementAtIndex_def)
    have below: "m_vectors a' ! j = m_vectors a ! j" if "j < i" for j
      using that by (simp add: a'_def SetElementAtIndex_def)
    show ?thesis
      unfolding step
    proof (intro conjI allI impI)
      show "m_format (fst (NoiseLoop dgg ps n (i + 1) a' (snd drawn))) = m_format a"
        using IH fa' by simp
      show "length (m_vectors (fst (NoiseLoop dgg ps n (i + 1) a' (snd drawn)))) = n"
        using IH by simp
    next
      fix j assume j: "j < n" "i \<le> j"
      show "np_params (m_vectors (fst (NoiseLoop dgg ps n (i + 1) a' (snd drawn))) ! j) = ps ! j"
      proof (cases "j = i")
        case True
        then have "m_vectors (fst (NoiseLoop dgg ps n (i + 1) a' (snd drawn))) ! j = x"
          using IH at_i by simp
        then show ?thesis using True by (simp add: x_def)
      next
        case False
        then show ?thesis using IH j by simp
      qed
    next
      fix j assume "j < i"
      then show "m_vectors (fst (NoiseLoop dgg ps n (i + 1) a' (snd drawn))) ! j = m_vectors a ! j"
        using IH below by simp
    qed
  qed
qed

lemma NoiseLoop_params:
  "GetParams (fst (NoiseLoop dgg ps (length ps) 0 (DCRTPoly_zero ps COEFFICIENT) g)) = ps"
  "m_format (fst (NoiseLoop dgg ps (length ps) 0 (DCRTPoly_zero ps COEFFICIENT) g)) = COEFFICIENT"
proof -
  have "length (m_vectors (DCRTPoly_zero ps COEFFICIENT)) = length ps"
    by (simp add: DCRTPoly_zero_def)
  from NoiseLoop_towers [OF _ this, of 0 ps dgg g]
  have f: "m_format (fst (NoiseLoop dgg ps (length ps) 0 (DCRTPoly_zero ps COEFFICIENT) g)) =
       m_format (DCRTPoly_zero ps COEFFICIENT)"
    and l: "length (m_vectors (fst (NoiseLoop dgg ps (length ps) 0 (DCRTPoly_zero ps COEFFICIENT) g))) =
       length ps"
    and p: "\<forall>j<length ps.
       np_params (m_vectors (fst (NoiseLoop dgg ps (length ps) 0 (DCRTPoly_zero ps COEFFICIENT) g)) ! j) =
       ps ! j"
    by simp_all
  show "m_format (fst (NoiseLoop dgg ps (length ps) 0 (DCRTPoly_zero ps COEFFICIENT) g)) = COEFFICIENT"
    using f by (simp add: DCRTPoly_zero_def)
  show "GetParams (fst (NoiseLoop dgg ps (length ps) 0 (DCRTPoly_zero ps COEFFICIENT) g)) = ps"
    unfolding GetParams_def using l p by (intro nth_equalityI) simp_all
qed


text \<open>
  C8. On a ciphertext whose first two components \<open>c0\<close> and \<open>c1\<close> are in the transform domain
  with the same number of towers, the randomization block returns the ciphertext with
  \<open>c0 + r\<close> and \<open>c1 - r\<close> in their place, for one noise polynomial \<open>r\<close>: the polynomial
  drawn tower by tower at the chain of \<open>c0\<close> and brought to the transform domain. Every
  other component and the metadata (level, noise-scale degree, key tag, parameters) are
  unchanged.
\<close>

theorem C8_rerandomization_frame:
  assumes "GetElements ct = c0 # c1 # rest"
    and "m_format c0 = EVALUATION"
    and "m_format c1 = EVALUATION"
    and "GetNumOfElements c1 = GetNumOfElements c0"
    and "NoiseLoop dgg (GetParams c0) (length (GetParams c0)) 0
           (DCRTPoly_zero (GetParams c0) COEFFICIENT) g = (noise, g')"
    and "r = SetFormat ext EVALUATION noise"
  shows "\<exists>newC0 newC1 ct'.
     Randomization ext dgg ct g = Inr (ct', g') \<and>
     Plus c0 r = Inr newC0 \<and> Minus c1 r = Inr newC1 \<and>
     ct' = ct\<lparr>GetElements := newC0 # newC1 # rest\<rparr> \<and>
     GetLevel ct' = GetLevel ct \<and> GetNoiseScaleDeg ct' = GetNoiseScaleDeg ct \<and>
     ct_KeyTag ct' = ct_KeyTag ct \<and> ct_CryptoParameters ct' = ct_CryptoParameters ct \<and>
     m_format r = EVALUATION \<and> GetParams r = GetParams c0"
proof -
  have noise: "noise = fst (NoiseLoop dgg (GetParams c0) (length (GetParams c0)) 0
                 (DCRTPoly_zero (GetParams c0) COEFFICIENT) g)"
    and g': "g' = snd (NoiseLoop dgg (GetParams c0) (length (GetParams c0)) 0
                 (DCRTPoly_zero (GetParams c0) COEFFICIENT) g)"
    using assms(5) by simp_all
  have rf: "m_format r = EVALUATION" and rp: "GetParams r = GetParams c0"
    unfolding assms(6) noise by (simp_all add: SetFormat_towers NoiseLoop_params)
  have rl: "length (m_vectors r) = length (m_vectors c0)"
    using rp by (metis GetParams_def length_map)
  obtain newC0 where n0: "Plus c0 r = Inr newC0" and f0: "m_format newC0 = EVALUATION"
    using DCRTOp_ok [of c0 r ModAdd] assms(2) rf rl by (simp add: Plus_def)
  obtain newC1 where n1: "Minus c1 r = Inr newC1" and f1: "m_format newC1 = EVALUATION"
    using DCRTOp_ok [of c1 r ModSub] assms(3,4) rf rl
    by (simp add: Minus_def GetNumOfElements_def)
  have s0: "SetFormat ext EVALUATION newC0 = newC0" and s1: "SetFormat ext EVALUATION newC1 = newC1"
    using f0 f1 by (simp_all add: SetFormat_def)
  have "Randomization ext dgg ct g = Inr (ct\<lparr>GetElements := newC0 # newC1 # rest\<rparr>, g')"
    using n0 n1 s0 s1 assms(1)
    by (simp add: Randomization_def Let_def ElementAt_def assms(6) noise g')
  then show ?thesis
    using n0 n1 rf rp by simp
qed


theorem C8_rerandomization_frame_witness:
  "GetElements ex_ct_std =
     [\<lparr>m_vectors = [\<lparr>np_params = ex_t17, np_values = [16, 16]\<rparr>,
                    \<lparr>np_params = ex_t13, np_values = [2, 3]\<rparr>],
       m_format = EVALUATION\<rparr>,
      \<lparr>m_vectors = [\<lparr>np_params = ex_t17, np_values = [0, 3]\<rparr>,
                    \<lparr>np_params = ex_t13, np_values = [9, 12]\<rparr>],
       m_format = EVALUATION\<rparr>] \<and>
   NoiseLoop ex_gen [ex_t17, ex_t13] 2 0 (DCRTPoly_zero [ex_t17, ex_t13] COEFFICIENT) 0 =
     (\<lparr>m_vectors = [\<lparr>np_params = ex_t17, np_values = [1, 1]\<rparr>,
                    \<lparr>np_params = ex_t13, np_values = [1, 1]\<rparr>],
       m_format = COEFFICIENT\<rparr>, 2) \<and>
   SetFormat (ex_ext []) EVALUATION
     \<lparr>m_vectors = [\<lparr>np_params = ex_t17, np_values = [1, 1]\<rparr>,
                    \<lparr>np_params = ex_t13, np_values = [1, 1]\<rparr>],
       m_format = COEFFICIENT\<rparr> =
     \<lparr>m_vectors = [\<lparr>np_params = ex_t17, np_values = [5, 14]\<rparr>,
                    \<lparr>np_params = ex_t13, np_values = [6, 9]\<rparr>],
       m_format = EVALUATION\<rparr> \<and>
   Plus \<lparr>m_vectors = [\<lparr>np_params = ex_t17, np_values = [16, 16]\<rparr>,
                    \<lparr>np_params = ex_t13, np_values = [2, 3]\<rparr>],
       m_format = EVALUATION\<rparr>
     \<lparr>m_vectors = [\<lparr>np_params = ex_t17, np_values = [5, 14]\<rparr>,
                    \<lparr>np_params = ex_t13, np_values = [6, 9]\<rparr>],
       m_format = EVALUATION\<rparr> =
     Inr \<lparr>m_vectors = [\<lparr>np_params = ex_t17, np_values = [4, 13]\<rparr>,
                    \<lparr>np_params = ex_t13, np_values = [8, 12]\<rparr>],
       m_format = EVALUATION\<rparr> \<and>
   Minus \<lparr>m_vectors = [\<lparr>np_params = ex_t17, np_values = [0, 3]\<rparr>,
                    \<lparr>np_params = ex_t13, np_values = [9, 12]\<rparr>],
       m_format = EVALUATION\<rparr>
     \<lparr>m_vectors = [\<lparr>np_params = ex_t17, np_values = [5, 14]\<rparr>,
                    \<lparr>np_params = ex_t13, np_values = [6, 9]\<rparr>],
       m_format = EVALUATION\<rparr> =
     Inr \<lparr>m_vectors = [\<lparr>np_params = ex_t17, np_values = [12, 6]\<rparr>,
                    \<lparr>np_params = ex_t13, np_values = [3, 3]\<rparr>],
       m_format = EVALUATION\<rparr> \<and>
   Randomization (ex_ext []) ex_gen ex_ct_std 0 =
     Inr (ex_ct_std\<lparr>GetElements :=
            [\<lparr>m_vectors = [\<lparr>np_params = ex_t17, np_values = [4, 13]\<rparr>,
                    \<lparr>np_params = ex_t13, np_values = [8, 12]\<rparr>],
       m_format = EVALUATION\<rparr>,
             \<lparr>m_vectors = [\<lparr>np_params = ex_t17, np_values = [12, 6]\<rparr>,
                    \<lparr>np_params = ex_t13, np_values = [3, 3]\<rparr>],
       m_format = EVALUATION\<rparr>]\<rparr>, 2)"
proof -
  let ?c0 = "\<lparr>m_vectors = [\<lparr>np_params = ex_t17, np_values = [16, 16]\<rparr>,
                    \<lparr>np_params = ex_t13, np_values = [2, 3]\<rparr>],
       m_format = EVALUATION\<rparr>"
  let ?c1 = "\<lparr>m_vectors = [\<lparr>np_params = ex_t17, np_values = [0, 3]\<rparr>,
                    \<lparr>np_params = ex_t13, np_values = [9, 12]\<rparr>],
       m_format = EVALUATION\<rparr>"
  let ?noise = "\<lparr>m_vectors = [\<lparr>np_params = ex_t17, np_values = [1, 1]\<rparr>,
                    \<lparr>np_params = ex_t13, np_values = [1, 1]\<rparr>],
       m_format = COEFFICIENT\<rparr>"
  let ?r = "\<lparr>m_vectors = [\<lparr>np_params = ex_t17, np_values = [5, 14]\<rparr>,
                    \<lparr>np_params = ex_t13, np_values = [6, 9]\<rparr>],
       m_format = EVALUATION\<rparr>"
  let ?n0 = "\<lparr>m_vectors = [\<lparr>np_params = ex_t17, np_values = [4, 13]\<rparr>,
                    \<lparr>np_params = ex_t13, np_values = [8, 12]\<rparr>],
       m_format = EVALUATION\<rparr>"
  let ?n1 = "\<lparr>m_vectors = [\<lparr>np_params = ex_t17, np_values = [12, 6]\<rparr>,
                    \<lparr>np_params = ex_t13, np_values = [3, 3]\<rparr>],
       m_format = EVALUATION\<rparr>"
  have p0: "GetParams ?c0 = [ex_t17, ex_t13]"
    by (simp add: GetParams_def)
  have h1: "GetElements ex_ct_std = ?c0 # ?c1 # []"
    by code_simp
  have h2: "m_format ?c0 = EVALUATION" and h3: "m_format ?c1 = EVALUATION"
    and h4: "GetNumOfElements ?c1 = GetNumOfElements ?c0"
    by (simp_all add: GetNumOfElements_def)
  have loop: "NoiseLoop ex_gen [ex_t17, ex_t13] 2 0 (DCRTPoly_zero [ex_t17, ex_t13] COEFFICIENT) 0 =
      (?noise, 2)"
    by code_simp
  have h5: "NoiseLoop ex_gen (GetParams ?c0) (length (GetParams ?c0)) 0
      (DCRTPoly_zero (GetParams ?c0) COEFFICIENT) 0 = (?noise, 2)"
    unfolding p0 using loop by (simp add: numeral_2_eq_2)
  have h6: "?r = SetFormat (ex_ext []) EVALUATION ?noise"
    by code_simp
  have a0: "Plus ?c0 ?r = Inr ?n0"
    by code_simp
  have a1: "Minus ?c1 ?r = Inr ?n1"
    by code_simp
  from C8_rerandomization_frame [OF h1 h2 h3 h4 h5 h6]
  obtain newC0 newC1 where "Plus ?c0 ?r = Inr newC0" "Minus ?c1 ?r = Inr newC1"
    "Randomization (ex_ext []) ex_gen ex_ct_std 0 =
       Inr (ex_ct_std\<lparr>GetElements := newC0 # newC1 # []\<rparr>, 2)"
    by blast
  then have "Randomization (ex_ext []) ex_gen ex_ct_std 0 =
       Inr (ex_ct_std\<lparr>GetElements := [?n0, ?n1]\<rparr>, 2)"
    using a0 a1 by simp
  then show ?thesis
    using h1 loop h6 a0 a1 by simp
qed

lemma ModSub_mod:
  assumes "0 < q"
  shows "int (ModSub q x y) = (int x - int y) mod int q"
proof -
  have "y mod q \<le> q" using assms by simp
  then have "int (x + (q - y mod q)) = int x + int q - int y mod int q"
    by (simp add: zmod_int)
  then have "int (ModSub q x y) = (int x + int q - int y mod int q) mod int q"
    unfolding ModSub_def by (simp only: zmod_int)
  also have "\<dots> = (int x - int y) mod int q"
    by (smt (verit) mod_add_self2 mod_diff_right_eq)
  finally show ?thesis .
qed

lemma mod_inner_left: "(a + (b mod q) * s) mod q = (a + b * s) mod (q::int)"
  by (metis mod_add_right_eq mod_mult_left_eq)

lemma mod_inner_right: "(a + r * (b mod q)) mod q = (a + r * b) mod (q::int)"
  by (metis mod_add_right_eq mod_mult_right_eq)

lemma rerandomize_scalar:
  assumes "0 < q"
  shows "ModAdd q (ModAdd q c0 r) (ModMul q (ModSub q c1 r) s) =
         ModAdd q (ModAdd q c0 (ModMul q c1 s)) (ModMul q r (ModSub q (1 mod q) s))"
proof -
  have l: "int (ModAdd q (ModAdd q c0 r) (ModMul q (ModSub q c1 r) s)) =
      (int c0 + int r + (int c1 - int r) * int s) mod int q"
    unfolding ModAdd_def ModMul_def
    by (simp add: zmod_int ModSub_mod [OF assms] mod_simps mod_inner_left)
  have r: "int (ModAdd q (ModAdd q c0 (ModMul q c1 s)) (ModMul q r (ModSub q (1 mod q) s))) =
      (int c0 + int c1 * int s + int r * (1 - int s)) mod int q"
    unfolding ModAdd_def ModMul_def
    by (simp add: zmod_int ModSub_mod [OF assms] mod_simps mod_inner_right)
  have "int c0 + int r + (int c1 - int r) * int s = int c0 + int c1 * int s + int r * (1 - int s)"
    by (simp add: algebra_simps)
  with l r have "int (ModAdd q (ModAdd q c0 r) (ModMul q (ModSub q c1 r) s)) =
     int (ModAdd q (ModAdd q c0 (ModMul q c1 s)) (ModMul q r (ModSub q (1 mod q) s)))"
    by simp
  then show ?thesis by simp
qed


lemma SameShape_format: "SameShape a b \<Longrightarrow> m_format b = m_format a"
  by (simp add: SameShape_def)

lemma SameShape_length: "SameShape a b \<Longrightarrow> length (m_vectors b) = length (m_vectors a)"
  by (auto simp: SameShape_def dest: list_all2_lengthD)

lemma SameShape_nth:
  assumes "SameShape a b" and "i < length (m_vectors a)"
  shows "modulus (np_params (m_vectors b ! i)) = modulus (np_params (m_vectors a ! i))"
    and "length (np_values (m_vectors b ! i)) = length (np_values (m_vectors a ! i))"
  using assms by (simp_all add: SameShape_def list_all2_conv_all_nth)

lemma ConstPoly_shape:
  "m_format (ConstPoly c a) = m_format a"
  "length (m_vectors (ConstPoly c a)) = length (m_vectors a)"
  by (simp_all add: ConstPoly_def)

lemma ConstPoly_nth:
  "i < length (m_vectors a) \<Longrightarrow>
   m_vectors (ConstPoly c a) ! i =
     (m_vectors a ! i)\<lparr>np_values :=
        map (\<lambda>v. c mod modulus (np_params (m_vectors a ! i))) (np_values (m_vectors a ! i))\<rparr>"
  by (simp add: ConstPoly_def)

lemma NativeOp_values:
  "np_values (NativeOp f x y) = map2 (f (modulus (np_params x))) (np_values x) (np_values y)"
  by (simp add: NativeOp_def)

lemma Native_rerandomize:
  assumes q: "0 < modulus (np_params x0)"
    and m1: "modulus (np_params x1) = modulus (np_params x0)"
    and ms: "modulus (np_params xs) = modulus (np_params x0)"
    and mr: "modulus (np_params xr) = modulus (np_params x0)"
    and l1: "length (np_values x1) = length (np_values x0)"
    and ls: "length (np_values xs) = length (np_values x0)"
    and lr: "length (np_values xr) = length (np_values x0)"
  shows "NativeOp ModAdd (NativeOp ModAdd x0 xr) (NativeOp ModMul (NativeOp ModSub x1 xr) xs) =
     NativeOp ModAdd (NativeOp ModAdd x0 (NativeOp ModMul x1 xs))
       (NativeOp ModMul xr
          (NativeOp ModSub
             (xs\<lparr>np_values := map (\<lambda>v. 1 mod modulus (np_params xs)) (np_values xs)\<rparr>) xs))"
proof -
  let ?q = "modulus (np_params x0)"
  have "map2 (ModAdd ?q) (map2 (ModAdd ?q) (np_values x0) (np_values xr))
          (map2 (ModMul ?q) (map2 (ModSub ?q) (np_values x1) (np_values xr)) (np_values xs)) =
        map2 (ModAdd ?q) (map2 (ModAdd ?q) (np_values x0) (map2 (ModMul ?q) (np_values x1) (np_values xs)))
          (map2 (ModMul ?q) (np_values xr)
             (map2 (ModSub ?q) (map (\<lambda>v. 1 mod ?q) (np_values xs)) (np_values xs)))"
    using l1 ls lr by (intro nth_equalityI) (simp_all add: rerandomize_scalar [OF q])
  then show ?thesis
    by (simp add: NativeOp_def m1 ms mr)
qed

lemma DCRT_rerandomize:
  assumes s1: "SameShape c0 c1" and ss: "SameShape c0 s" and sr: "SameShape c0 r"
    and pos: "PositiveModuli c0"
  shows "bindE (Plus c0 r) (\<lambda>c0'. bindE (Minus c1 r) (\<lambda>c1'. bindE (Times c1' s) (Plus c0'))) =
           Inr (c0\<lparr>m_vectors :=
                  map2 (NativeOp ModAdd) (map2 (NativeOp ModAdd) (m_vectors c0) (m_vectors r))
                    (map2 (NativeOp ModMul) (map2 (NativeOp ModSub) (m_vectors c1) (m_vectors r))
                       (m_vectors s))\<rparr>)"
    and "bindE (Times c1 s) (\<lambda>p. bindE (Plus c0 p) (\<lambda>d.
           bindE (Minus (OnePoly s) s) (\<lambda>u. bindE (Times r u) (Plus d)))) =
           Inr (c0\<lparr>m_vectors :=
                  map2 (NativeOp ModAdd)
                    (map2 (NativeOp ModAdd) (m_vectors c0)
                       (map2 (NativeOp ModMul) (m_vectors c1) (m_vectors s)))
                    (map2 (NativeOp ModMul) (m_vectors r)
                       (map2 (NativeOp ModSub) (m_vectors (OnePoly s)) (m_vectors s)))\<rparr>)"
proof -
  note f = SameShape_format [OF s1] SameShape_format [OF ss] SameShape_format [OF sr]
  note l = SameShape_length [OF s1] SameShape_length [OF ss] SameShape_length [OF sr]
  show "bindE (Plus c0 r) (\<lambda>c0'. bindE (Minus c1 r) (\<lambda>c1'. bindE (Times c1' s) (Plus c0'))) =
           Inr (c0\<lparr>m_vectors :=
                  map2 (NativeOp ModAdd) (map2 (NativeOp ModAdd) (m_vectors c0) (m_vectors r))
                    (map2 (NativeOp ModMul) (map2 (NativeOp ModSub) (m_vectors c1) (m_vectors r))
                       (m_vectors s))\<rparr>)"
    by (simp add: Plus_def Minus_def Times_def DCRTOp_def f l)
  show "bindE (Times c1 s) (\<lambda>p. bindE (Plus c0 p) (\<lambda>d.
           bindE (Minus (OnePoly s) s) (\<lambda>u. bindE (Times r u) (Plus d)))) =
           Inr (c0\<lparr>m_vectors :=
                  map2 (NativeOp ModAdd)
                    (map2 (NativeOp ModAdd) (m_vectors c0)
                       (map2 (NativeOp ModMul) (m_vectors c1) (m_vectors s)))
                    (map2 (NativeOp ModMul) (m_vectors r)
                       (map2 (NativeOp ModSub) (m_vectors (OnePoly s)) (m_vectors s)))\<rparr>)"
    by (simp add: Plus_def Minus_def Times_def DCRTOp_def f l OnePoly_def ConstPoly_shape)
qed

lemma DCRT_rerandomize_towers:
  assumes s1: "SameShape c0 c1" and ss: "SameShape c0 s" and sr: "SameShape c0 r"
    and pos: "PositiveModuli c0"
  shows "map2 (NativeOp ModAdd) (map2 (NativeOp ModAdd) (m_vectors c0) (m_vectors r))
           (map2 (NativeOp ModMul) (map2 (NativeOp ModSub) (m_vectors c1) (m_vectors r)) (m_vectors s)) =
         map2 (NativeOp ModAdd)
           (map2 (NativeOp ModAdd) (m_vectors c0) (map2 (NativeOp ModMul) (m_vectors c1) (m_vectors s)))
           (map2 (NativeOp ModMul) (m_vectors r)
              (map2 (NativeOp ModSub) (m_vectors (OnePoly s)) (m_vectors s)))"
proof (rule nth_equalityI)
  note l = SameShape_length [OF s1] SameShape_length [OF ss] SameShape_length [OF sr]
  show "length (map2 (NativeOp ModAdd) (map2 (NativeOp ModAdd) (m_vectors c0) (m_vectors r))
           (map2 (NativeOp ModMul) (map2 (NativeOp ModSub) (m_vectors c1) (m_vectors r)) (m_vectors s))) =
        length (map2 (NativeOp ModAdd)
           (map2 (NativeOp ModAdd) (m_vectors c0) (map2 (NativeOp ModMul) (m_vectors c1) (m_vectors s)))
           (map2 (NativeOp ModMul) (m_vectors r)
              (map2 (NativeOp ModSub) (m_vectors (OnePoly s)) (m_vectors s))))"
    by (simp add: l OnePoly_def ConstPoly_shape)
  fix i
  assume "i < length (map2 (NativeOp ModAdd) (map2 (NativeOp ModAdd) (m_vectors c0) (m_vectors r))
           (map2 (NativeOp ModMul) (map2 (NativeOp ModSub) (m_vectors c1) (m_vectors r)) (m_vectors s)))"
  then have i: "i < length (m_vectors c0)"
    by (simp add: l)
  have q: "0 < modulus (np_params (m_vectors c0 ! i))"
    using pos i by (simp add: PositiveModuli_def list_all_length)
  have one: "m_vectors (OnePoly s) ! i =
      (m_vectors s ! i)\<lparr>np_values :=
         map (\<lambda>v. 1 mod modulus (np_params (m_vectors s ! i))) (np_values (m_vectors s ! i))\<rparr>"
    using i l by (simp add: OnePoly_def ConstPoly_nth)
  show "map2 (NativeOp ModAdd) (map2 (NativeOp ModAdd) (m_vectors c0) (m_vectors r))
           (map2 (NativeOp ModMul) (map2 (NativeOp ModSub) (m_vectors c1) (m_vectors r)) (m_vectors s)) ! i =
        map2 (NativeOp ModAdd)
           (map2 (NativeOp ModAdd) (m_vectors c0) (map2 (NativeOp ModMul) (m_vectors c1) (m_vectors s)))
           (map2 (NativeOp ModMul) (m_vectors r)
              (map2 (NativeOp ModSub) (m_vectors (OnePoly s)) (m_vectors s))) ! i"
    using i l one
      Native_rerandomize [OF q SameShape_nth(1) [OF s1 i] SameShape_nth(1) [OF ss i]
        SameShape_nth(1) [OF sr i] SameShape_nth(2) [OF s1 i] SameShape_nth(2) [OF ss i]
        SameShape_nth(2) [OF sr i]]
    by (simp add: OnePoly_def ConstPoly_shape)
qed


lemma error_term:
  assumes ss: "SameShape c0 s" and sr: "SameShape c0 r"
  shows "bindE (Minus (OnePoly s) s) (Times r) =
     Inr (r\<lparr>m_vectors :=
            map2 (NativeOp ModMul) (m_vectors r)
              (map2 (NativeOp ModSub) (m_vectors (OnePoly s)) (m_vectors s))\<rparr>)"
  using SameShape_format [OF ss] SameShape_format [OF sr]
    SameShape_length [OF ss] SameShape_length [OF sr]
  by (simp add: Minus_def Times_def DCRTOp_def OnePoly_def ConstPoly_shape)

lemma error_term_value:
  assumes ss: "SameShape c0 s" and sr: "SameShape c0 r"
    and i: "i < length (m_vectors c0)" and k: "k < length (np_values (m_vectors c0 ! i))"
  shows "np_values (map2 (NativeOp ModMul) (m_vectors r)
            (map2 (NativeOp ModSub) (m_vectors (OnePoly s)) (m_vectors s)) ! i) ! k =
         ModMul (modulus (np_params (m_vectors c0 ! i))) (np_values (m_vectors r ! i) ! k)
           (ModSub (modulus (np_params (m_vectors c0 ! i)))
              (1 mod modulus (np_params (m_vectors c0 ! i))) (np_values (m_vectors s ! i) ! k))"
  using i k SameShape_length [OF ss] SameShape_length [OF sr]
    SameShape_nth [OF ss i] SameShape_nth [OF sr i]
  by (simp add: OnePoly_def ConstPoly_shape ConstPoly_nth NativeOp_values)

lemma OnePoly_value:
  assumes "s = OnePoly s" and "i < length (m_vectors s)" and "k < length (np_values (m_vectors s ! i))"
  shows "np_values (m_vectors s ! i) ! k = 1 mod modulus (np_params (m_vectors s ! i))"
proof -
  have "m_vectors s ! i = m_vectors (OnePoly s) ! i"
    using assms(1) by simp
  also have "\<dots> = (m_vectors s ! i)\<lparr>np_values :=
      map (\<lambda>v. 1 mod modulus (np_params (m_vectors s ! i))) (np_values (m_vectors s ! i))\<rparr>"
    using assms(2) by (simp add: OnePoly_def ConstPoly_nth)
  finally have "np_values (m_vectors s ! i) =
      map (\<lambda>v. 1 mod modulus (np_params (m_vectors s ! i))) (np_values (m_vectors s ! i))"
    by (metis NativePoly.select_convs(2) NativePoly.surjective NativePoly.update_convs(2))
  then have "np_values (m_vectors s ! i) ! k =
      map (\<lambda>v. 1 mod modulus (np_params (m_vectors s ! i))) (np_values (m_vectors s ! i)) ! k"
    by simp
  then show ?thesis
    using assms(3) by simp
qed

lemma not_OnePoly_value:
  assumes "s \<noteq> OnePoly s"
  shows "\<exists>i k. i < length (m_vectors s) \<and> k < length (np_values (m_vectors s ! i)) \<and>
     np_values (m_vectors s ! i) ! k \<noteq> 1 mod modulus (np_params (m_vectors s ! i))"
proof (rule ccontr)
  assume "\<not> ?thesis"
  then have all: "\<And>i k. i < length (m_vectors s) \<Longrightarrow> k < length (np_values (m_vectors s ! i)) \<Longrightarrow>
      np_values (m_vectors s ! i) ! k = 1 mod modulus (np_params (m_vectors s ! i))"
    by blast
  have "m_vectors (OnePoly s) = m_vectors s"
  proof (rule nth_equalityI)
    show "length (m_vectors (OnePoly s)) = length (m_vectors s)"
      by (simp add: OnePoly_def ConstPoly_shape)
    fix i assume "i < length (m_vectors (OnePoly s))"
    then have i: "i < length (m_vectors s)"
      by (simp add: OnePoly_def ConstPoly_shape)
    have "map (\<lambda>v. 1 mod modulus (np_params (m_vectors s ! i))) (np_values (m_vectors s ! i)) =
        np_values (m_vectors s ! i)"
      using all [OF i] by (intro nth_equalityI) simp_all
    then show "m_vectors (OnePoly s) ! i = m_vectors s ! i"
      using i by (simp add: OnePoly_def ConstPoly_nth)
  qed
  then have "OnePoly s = s"
    by (simp add: OnePoly_def ConstPoly_def)
  with assms show False by simp
qed

lemma ModSub_one_self: "0 < q \<Longrightarrow> ModSub q (1 mod q) (1 mod q) = 0"
  by (simp add: ModSub_def)

lemma ModSub_one_other:
  assumes "v < q" and "v \<noteq> 1 mod q"
  shows "ModMul q (1 mod q) (ModSub q (1 mod q) v) \<noteq> 0"
proof (cases "q = 1")
  case True
  then show ?thesis using assms by simp
next
  case False
  then have q: "2 \<le> q" using assms(1) by simp
  then have one: "1 mod q = 1" by simp
  have v: "v \<noteq> 1" using assms(2) one by simp
  show ?thesis
  proof (cases "v = 0")
    case True
    have "(1 + q) mod q = 1"
      using q by (metis mod_add_self2 one)
    then show ?thesis using True q by (simp add: ModMul_def ModSub_def one)
  next
    case False
    then have "2 \<le> v" using v by simp
    then have "1 + (q - v) < q" "0 < 1 + (q - v)"
      using assms(1) by simp_all
    then show ?thesis
      using assms(1) by (simp add: ModMul_def ModSub_def one)
  qed
qed


lemma SameShape_ConstPoly: "SameShape a (ConstPoly c a)"
  by (simp add: SameShape_def ConstPoly_def list_all2_conv_all_nth)

lemma ZeroPoly_value:
  "i < length (m_vectors r) \<Longrightarrow> k < length (np_values (m_vectors r ! i)) \<Longrightarrow>
   np_values (m_vectors (ZeroPoly r) ! i) ! k = 0"
  by (simp add: ZeroPoly_def ConstPoly_nth)

lemma error_term_cancels:
  assumes ss: "SameShape c0 s" and sr: "SameShape c0 r" and pos: "PositiveModuli c0"
    and one: "s = OnePoly s"
  shows "bindE (Minus (OnePoly s) s) (Times r) = Inr (ZeroPoly r)"
proof -
  let ?M = "map2 (NativeOp ModMul) (m_vectors r)
              (map2 (NativeOp ModSub) (m_vectors (OnePoly s)) (m_vectors s))"
  note l = SameShape_length [OF ss] SameShape_length [OF sr]
  have "?M = m_vectors (ZeroPoly r)"
  proof (rule nth_equalityI)
    show len: "length ?M = length (m_vectors (ZeroPoly r))"
      by (simp add: l OnePoly_def ZeroPoly_def ConstPoly_shape)
    fix i assume "i < length ?M"
    then have i: "i < length (m_vectors c0)"
      by (simp add: l OnePoly_def ConstPoly_shape)
    note sh = SameShape_nth [OF ss i] SameShape_nth [OF sr i]
    have q: "0 < modulus (np_params (m_vectors c0 ! i))"
      using pos i by (simp add: PositiveModuli_def list_all_length)
    have "np_values (?M ! i) = np_values (m_vectors (ZeroPoly r) ! i)"
    proof (rule nth_equalityI)
      show "length (np_values (?M ! i)) = length (np_values (m_vectors (ZeroPoly r) ! i))"
        using i l sh
        by (simp add: OnePoly_def ZeroPoly_def ConstPoly_shape ConstPoly_nth NativeOp_values)
      fix k assume "k < length (np_values (?M ! i))"
      then have k: "k < length (np_values (m_vectors c0 ! i))"
        using i l sh by (simp add: OnePoly_def ConstPoly_shape ConstPoly_nth NativeOp_values)
      have "np_values (m_vectors s ! i) ! k = 1 mod modulus (np_params (m_vectors s ! i))"
        using i k l sh by (intro OnePoly_value [OF one]) simp_all
      then have sv: "np_values (m_vectors s ! i) ! k = 1 mod modulus (np_params (m_vectors c0 ! i))"
        by (simp only: sh)
      have "np_values (?M ! i) ! k =
          ModMul (modulus (np_params (m_vectors c0 ! i))) (np_values (m_vectors r ! i) ! k) 0"
        by (simp only: error_term_value [OF ss sr i k] sv ModSub_one_self [OF q])
      then have "np_values (?M ! i) ! k = 0"
        by (simp add: ModMul_def)
      then show "np_values (?M ! i) ! k = np_values (m_vectors (ZeroPoly r) ! i) ! k"
        using ZeroPoly_value [of i r k] i k l sh by simp
    qed
    moreover have "np_params (?M ! i) = np_params (m_vectors (ZeroPoly r) ! i)"
      using i l by (simp add: OnePoly_def ZeroPoly_def ConstPoly_shape ConstPoly_nth NativeOp_params)
    ultimately show "?M ! i = m_vectors (ZeroPoly r) ! i"
      by simp
  qed
  then have "r\<lparr>m_vectors := ?M\<rparr> = ZeroPoly r"
    by (simp add: ZeroPoly_def ConstPoly_def)
  then show ?thesis
    using error_term [OF ss sr] by simp
qed

lemma error_term_remains:
  assumes ss: "SameShape c0 s" and pos: "PositiveModuli c0"
    and red: "Reduced s" and ne: "s \<noteq> OnePoly s"
  shows "\<exists>e. bindE (Minus (OnePoly s) s) (Times (OnePoly c0)) = Inr e \<and> e \<noteq> ZeroPoly (OnePoly c0)"
proof -
  let ?r = "OnePoly c0"
  let ?M = "map2 (NativeOp ModMul) (m_vectors ?r)
              (map2 (NativeOp ModSub) (m_vectors (OnePoly s)) (m_vectors s))"
  have sr: "SameShape c0 ?r"
    unfolding OnePoly_def by (rule SameShape_ConstPoly)
  note l = SameShape_length [OF ss] SameShape_length [OF sr]
  obtain i k where i': "i < length (m_vectors s)" and k': "k < length (np_values (m_vectors s ! i))"
    and v: "np_values (m_vectors s ! i) ! k \<noteq> 1 mod modulus (np_params (m_vectors s ! i))"
    using not_OnePoly_value [OF ne] by blast
  have i: "i < length (m_vectors c0)" using i' l by simp
  note sh = SameShape_nth [OF ss i] SameShape_nth [OF sr i]
  have k: "k < length (np_values (m_vectors c0 ! i))" using k' sh by simp
  let ?q = "modulus (np_params (m_vectors c0 ! i))"
  have "np_values (m_vectors s ! i) ! k < modulus (np_params (m_vectors s ! i))"
    using red i' k' by (simp add: Reduced_def list_all_length)
  then have lt: "np_values (m_vectors s ! i) ! k < ?q"
    by (simp only: sh)
  have v': "np_values (m_vectors s ! i) ! k \<noteq> 1 mod ?q"
    using v sh(1) by metis
  have "np_values (m_vectors ?r ! i) ! k =
      map (\<lambda>v. 1 mod ?q) (np_values (m_vectors c0 ! i)) ! k"
    using i by (simp only: OnePoly_def ConstPoly_nth) simp
  then have rv: "np_values (m_vectors ?r ! i) ! k = 1 mod ?q"
    using k by (simp only: nth_map)
  have "np_values (?M ! i) ! k =
      ModMul ?q (1 mod ?q) (ModSub ?q (1 mod ?q) (np_values (m_vectors s ! i) ! k))"
    by (simp only: error_term_value [OF ss sr i k] rv)
  then have "np_values (?M ! i) ! k \<noteq> 0"
    using ModSub_one_other [OF lt v'] by metis
  moreover have "np_values (m_vectors (ZeroPoly ?r) ! i) ! k = 0"
    using ZeroPoly_value [of i ?r k] i k l sh by simp
  ultimately have "?M \<noteq> m_vectors (ZeroPoly ?r)"
    by metis
  then have "?r\<lparr>m_vectors := ?M\<rparr> \<noteq> ZeroPoly ?r"
    by (metis DCRTPoly.select_convs(1) DCRTPoly.surjective DCRTPoly.update_convs(1))
  then show ?thesis
    using error_term [OF ss sr] by simp
qed

text \<open>
  C9. For \<open>c0\<close>, \<open>c1\<close>, \<open>s\<close> and \<open>r\<close> of one shape (the transform domain, the same towers),
  the decrypt-core value of the rerandomized ciphertext,
  \<open>(c0 + r) + (c1 - r) * s\<close>, is defined and equals \<open>(c0 + c1 * s) + r * (1 - s)\<close>.
  The error term \<open>r * (1 - s)\<close> is zero when \<open>s\<close> is the constant one; when \<open>s\<close> (with
  reduced values) is not the constant one, there is a noise polynomial of that shape
  whose error term is not zero.
\<close>

theorem C9_rerandomization_decryption_identity:
  assumes "SameShape c0 c1" and "SameShape c0 s" and "SameShape c0 r" and "PositiveModuli c0"
  shows "(\<exists>d. bindE (Plus c0 r) (\<lambda>c0'. bindE (Minus c1 r) (\<lambda>c1'. bindE (Times c1' s) (Plus c0'))) =
              Inr d \<and>
            bindE (Times c1 s) (\<lambda>p. bindE (Plus c0 p) (\<lambda>b.
              bindE (Minus (OnePoly s) s) (\<lambda>u. bindE (Times r u) (Plus b)))) = Inr d) \<and>
     (s = OnePoly s \<longrightarrow> bindE (Minus (OnePoly s) s) (Times r) = Inr (ZeroPoly r)) \<and>
     (Reduced s \<and> s \<noteq> OnePoly s \<longrightarrow>
        (\<exists>r' e. SameShape c0 r' \<and> bindE (Minus (OnePoly s) s) (Times r') = Inr e \<and>
                 e \<noteq> ZeroPoly r'))"
proof (intro conjI impI)
  show "\<exists>d. bindE (Plus c0 r) (\<lambda>c0'. bindE (Minus c1 r) (\<lambda>c1'. bindE (Times c1' s) (Plus c0'))) =
              Inr d \<and>
            bindE (Times c1 s) (\<lambda>p. bindE (Plus c0 p) (\<lambda>b.
              bindE (Minus (OnePoly s) s) (\<lambda>u. bindE (Times r u) (Plus b)))) = Inr d"
    using DCRT_rerandomize [OF assms] DCRT_rerandomize_towers [OF assms] by simp
  show "bindE (Minus (OnePoly s) s) (Times r) = Inr (ZeroPoly r)" if "s = OnePoly s"
    using error_term_cancels [OF assms(2,3,4) that] .
  show "\<exists>r' e. SameShape c0 r' \<and> bindE (Minus (OnePoly s) s) (Times r') = Inr e \<and> e \<noteq> ZeroPoly r'"
    if "Reduced s \<and> s \<noteq> OnePoly s"
  proof -
    have "SameShape c0 (OnePoly c0)"
      unfolding OnePoly_def by (rule SameShape_ConstPoly)
    then show ?thesis
      using error_term_remains [OF assms(2,4)] that by blast
  qed
qed


theorem C9_rerandomization_decryption_identity_witness:
  "SameShape (ex_poly [16, 16] [2, 3]) (ex_poly [0, 3] [9, 12]) \<and>
   SameShape (ex_poly [16, 16] [2, 3]) (ex_poly [16, 16] [12, 12]) \<and>
   SameShape (ex_poly [16, 16] [2, 3]) (ex_poly [5, 14] [6, 9]) \<and>
   PositiveModuli (ex_poly [16, 16] [2, 3]) \<and>
   bindE (Plus (ex_poly [16, 16] [2, 3]) (ex_poly [5, 14] [6, 9]))
     (\<lambda>c0'. bindE (Minus (ex_poly [0, 3] [9, 12]) (ex_poly [5, 14] [6, 9]))
        (\<lambda>c1'. bindE (Times c1' (ex_poly [16, 16] [12, 12])) (Plus c0'))) =
     Inr (ex_poly [9, 7] [5, 9]) \<and>
   bindE (Times (ex_poly [0, 3] [9, 12]) (ex_poly [16, 16] [12, 12]))
     (\<lambda>p. bindE (Plus (ex_poly [16, 16] [2, 3]) p)
        (\<lambda>b. bindE (Minus (OnePoly (ex_poly [16, 16] [12, 12])) (ex_poly [16, 16] [12, 12]))
           (\<lambda>u. bindE (Times (ex_poly [5, 14] [6, 9]) u) (Plus b)))) =
     Inr (ex_poly [9, 7] [5, 9]) \<and>
   Reduced (ex_poly [16, 16] [12, 12]) \<and>
   ex_poly [16, 16] [12, 12] \<noteq> OnePoly (ex_poly [16, 16] [12, 12]) \<and>
   (\<exists>r' e. SameShape (ex_poly [16, 16] [2, 3]) r' \<and>
      bindE (Minus (OnePoly (ex_poly [16, 16] [12, 12])) (ex_poly [16, 16] [12, 12])) (Times r') = Inr e \<and>
      e \<noteq> ZeroPoly r') \<and>
   SameShape (ex_poly [16, 16] [2, 3]) (ex_poly [1, 1] [1, 1]) \<and>
   ex_poly [1, 1] [1, 1] = OnePoly (ex_poly [1, 1] [1, 1]) \<and>
   bindE (Minus (OnePoly (ex_poly [1, 1] [1, 1])) (ex_poly [1, 1] [1, 1])) (Times (ex_poly [5, 14] [6, 9])) =
     Inr (ZeroPoly (ex_poly [5, 14] [6, 9]))"
proof -
  let ?c0 = "ex_poly [16, 16] [2, 3]"
  let ?c1 = "ex_poly [0, 3] [9, 12]"
  let ?s = "ex_poly [16, 16] [12, 12]"
  let ?r = "ex_poly [5, 14] [6, 9]"
  let ?one = "ex_poly [1, 1] [1, 1]"
  have h1: "SameShape ?c0 ?c1" and h2: "SameShape ?c0 ?s" and h3: "SameShape ?c0 ?r"
    and h4: "PositiveModuli ?c0" and h5: "SameShape ?c0 ?one"
    by code_simp+
  have red: "Reduced ?s" and ne: "?s \<noteq> OnePoly ?s" and one: "?one = OnePoly ?one"
    by code_simp+
  have lhs: "bindE (Plus ?c0 ?r) (\<lambda>c0'. bindE (Minus ?c1 ?r) (\<lambda>c1'. bindE (Times c1' ?s) (Plus c0'))) =
      Inr (ex_poly [9, 7] [5, 9])"
    by code_simp
  note key = C9_rerandomization_decryption_identity [OF h1 h2 h3 h4]
  from key lhs
  have rhs: "bindE (Times ?c1 ?s) (\<lambda>p. bindE (Plus ?c0 p)
        (\<lambda>b. bindE (Minus (OnePoly ?s) ?s) (\<lambda>u. bindE (Times ?r u) (Plus b)))) =
      Inr (ex_poly [9, 7] [5, 9])"
    by auto
  from key red ne
  have remains: "\<exists>r' e. SameShape ?c0 r' \<and> bindE (Minus (OnePoly ?s) ?s) (Times r') = Inr e \<and>
      e \<noteq> ZeroPoly r'"
    by blast
  from C9_rerandomization_decryption_identity [OF h1 h5 h3 h4] one
  have cancels: "bindE (Minus (OnePoly ?one) ?one) (Times ?r) = Inr (ZeroPoly ?r)"
    by blast
  show ?thesis
    using h1 h2 h3 h4 h5 lhs rhs red ne remains one cancels by blast
qed

end
